theory Spec2Isabelle
  imports Main "HOL-Library.Sublist" "HOL-Library.AList"
begin

section \<open>Model resolution engine (model-fallback module)\<close>

text \<open>
  The data model of the resolution engine: the three native providers, the eight capability
  tags, the provider availability derived from the install configuration, and the tables
  \<open>NATIVE_FALLBACK_CHAINS\<close>, \<open>OPENCODE_ZEN_MODELS\<close>, \<open>GITHUB_COPILOT_MODELS\<close>,
  \<open>AGENT_REQUIREMENTS\<close> and \<open>CATEGORY_REQUIREMENTS\<close>, entry by entry as the source has them.
\<close>

datatype NativeProvider = Claude | Openai | Gemini

datatype ModelCapability =
    UnspecifiedHigh
  | UnspecifiedLow
  | Quick
  | Ultrabrain
  | VisualEngineering
  | Artistry
  | Writing
  | Glm

record NativeAvailability =
  claude :: bool
  openai :: bool
  gemini :: bool

record ProviderAvailability =
  native :: NativeAvailability
  opencodeZen :: bool
  copilot :: bool
  zai :: bool
  isMaxPlan :: bool

text \<open>The fields of \<open>InstallConfig\<close> as \<open>argsToConfig\<close> of the installer builds them.\<close>

record InstallConfig =
  hasClaude :: bool
  isMax20 :: bool
  hasOpenAI :: bool
  hasGemini :: bool
  hasCopilot :: bool
  hasOpencodeZen :: bool
  hasZaiCodingPlan :: bool

record AgentConfig =
  model :: string
  variant :: "string option"

type_synonym CategoryConfig = AgentConfig

text \<open>
  \<open>GeneratedOmoConfig\<close>: the \<open>$schema\<close> string and the two maps, kept as association lists
  in insertion order (the order in which the source assigns the keys).
\<close>

record GeneratedOmoConfig =
  schema :: string
  agents :: "(string \<times> AgentConfig) list"
  categories :: "(string \<times> CategoryConfig) list"

record NativeFallbackEntry =
  provider :: NativeProvider
  entry_model :: string

record AgentRequirement =
  capability :: ModelCapability
  req_variant :: "string option"

type_synonym CategoryRequirement = AgentRequirement

definition entry :: "NativeProvider \<Rightarrow> string \<Rightarrow> NativeFallbackEntry" where
  "entry p m = \<lparr>provider = p, entry_model = m\<rparr>"

fun NATIVE_FALLBACK_CHAINS :: "ModelCapability \<Rightarrow> NativeFallbackEntry list" where
  "NATIVE_FALLBACK_CHAINS UnspecifiedHigh =
     [entry Claude ''anthropic/claude-opus-4-5'',
      entry Openai ''openai/gpt-5.2'',
      entry Gemini ''google/gemini-3-pro-preview'']"
| "NATIVE_FALLBACK_CHAINS UnspecifiedLow =
     [entry Claude ''anthropic/claude-sonnet-4-5'',
      entry Openai ''openai/gpt-5.2'',
      entry Gemini ''google/gemini-3-flash-preview'']"
| "NATIVE_FALLBACK_CHAINS Quick =
     [entry Claude ''anthropic/claude-haiku-4-5'',
      entry Openai ''openai/gpt-5.1-codex-mini'',
      entry Gemini ''google/gemini-3-flash-preview'']"
| "NATIVE_FALLBACK_CHAINS Ultrabrain =
     [entry Openai ''openai/gpt-5.2-codex'',
      entry Claude ''anthropic/claude-opus-4-5'',
      entry Gemini ''google/gemini-3-pro-preview'']"
| "NATIVE_FALLBACK_CHAINS VisualEngineering =
     [entry Gemini ''google/gemini-3-pro-preview'',
      entry Openai ''openai/gpt-5.2'',
      entry Claude ''anthropic/claude-sonnet-4-5'']"
| "NATIVE_FALLBACK_CHAINS Artistry =
     [entry Gemini ''google/gemini-3-pro-preview'',
      entry Openai ''openai/gpt-5.2'',
      entry Claude ''anthropic/claude-opus-4-5'']"
| "NATIVE_FALLBACK_CHAINS Writing =
     [entry Gemini ''google/gemini-3-flash-preview'',
      entry Openai ''openai/gpt-5.2'',
      entry Claude ''anthropic/claude-sonnet-4-5'']"
| "NATIVE_FALLBACK_CHAINS Glm = []"

fun OPENCODE_ZEN_MODELS :: "ModelCapability \<Rightarrow> string" where
  "OPENCODE_ZEN_MODELS UnspecifiedHigh = ''opencode/claude-opus-4-5''"
| "OPENCODE_ZEN_MODELS UnspecifiedLow = ''opencode/claude-sonnet-4-5''"
| "OPENCODE_ZEN_MODELS Quick = ''opencode/claude-haiku-4-5''"
| "OPENCODE_ZEN_MODELS Ultrabrain = ''opencode/gpt-5.2-codex''"
| "OPENCODE_ZEN_MODELS VisualEngineering = ''opencode/gemini-3-pro''"
| "OPENCODE_ZEN_MODELS Artistry = ''opencode/gemini-3-pro''"
| "OPENCODE_ZEN_MODELS Writing = ''opencode/gemini-3-flash''"
| "OPENCODE_ZEN_MODELS Glm = ''opencode/glm-4.7-free''"

fun GITHUB_COPILOT_MODELS :: "ModelCapability \<Rightarrow> string" where
  "GITHUB_COPILOT_MODELS UnspecifiedHigh = ''github-copilot/claude-opus-4.5''"
| "GITHUB_COPILOT_MODELS UnspecifiedLow = ''github-copilot/claude-sonnet-4.5''"
| "GITHUB_COPILOT_MODELS Quick = ''github-copilot/claude-haiku-4.5''"
| "GITHUB_COPILOT_MODELS Ultrabrain = ''github-copilot/gpt-5.2-codex''"
| "GITHUB_COPILOT_MODELS VisualEngineering = ''github-copilot/gemini-3-pro-preview''"
| "GITHUB_COPILOT_MODELS Artistry = ''github-copilot/gemini-3-pro-preview''"
| "GITHUB_COPILOT_MODELS Writing = ''github-copilot/gemini-3-flash-preview''"
| "GITHUB_COPILOT_MODELS Glm = ''github-copilot/gpt-5.2''"

definition ZAI_MODEL :: string where
  "ZAI_MODEL = ''zai-coding-plan/glm-4.7''"

definition requirement :: "ModelCapability \<Rightarrow> string option \<Rightarrow> AgentRequirement" where
  "requirement c v = \<lparr>capability = c, req_variant = v\<rparr>"

definition AGENT_REQUIREMENTS :: "(string \<times> AgentRequirement) list" where
  "AGENT_REQUIREMENTS =
     [(''Sisyphus'', requirement UnspecifiedHigh None),
      (''oracle'', requirement Ultrabrain (Some ''high'')),
      (''librarian'', requirement Glm None),
      (''explore'', requirement Quick None),
      (''multimodal-looker'', requirement VisualEngineering None),
      (''Prometheus (Planner)'', requirement UnspecifiedHigh None),
      (''Metis (Plan Consultant)'', requirement UnspecifiedHigh None),
      (''Momus (Plan Reviewer)'', requirement Ultrabrain (Some ''medium'')),
      (''Atlas'', requirement UnspecifiedHigh None)]"

definition CATEGORY_REQUIREMENTS :: "(string \<times> CategoryRequirement) list" where
  "CATEGORY_REQUIREMENTS =
     [(''visual-engineering'', requirement VisualEngineering None),
      (''ultrabrain'', requirement Ultrabrain None),
      (''artistry'', requirement Artistry (Some ''max'')),
      (''quick'', requirement Quick None),
      (''unspecified-low'', requirement UnspecifiedLow None),
      (''unspecified-high'', requirement UnspecifiedHigh None),
      (''writing'', requirement Writing None)]"

definition ULTIMATE_FALLBACK :: string where
  "ULTIMATE_FALLBACK = ''opencode/glm-4.7-free''"

definition SCHEMA_URL :: string where
  "SCHEMA_URL = ''https://raw.githubusercontent.com/code-yeongyu/oh-my-opencode/master/assets/oh-my-opencode.schema.json''"

definition toProviderAvailability :: "InstallConfig \<Rightarrow> ProviderAvailability" where
  "toProviderAvailability config =
     \<lparr>native = \<lparr>claude = hasClaude config, openai = hasOpenAI config, gemini = hasGemini config\<rparr>,
      opencodeZen = hasOpencodeZen config,
      copilot = hasCopilot config,
      zai = hasZaiCodingPlan config,
      isMaxPlan = isMax20 config\<rparr>"

text \<open>\<open>avail.native[entry.provider]\<close>: the flag of one native provider.\<close>

fun nativeFlag :: "NativeAvailability \<Rightarrow> NativeProvider \<Rightarrow> bool" where
  "nativeFlag n Claude = claude n"
| "nativeFlag n Openai = openai n"
| "nativeFlag n Gemini = gemini n"

text \<open>
  The \<open>for (const entry of nativeChain)\<close> loop of \<open>resolveModel\<close>: it returns from the
  function at the first entry whose provider is available; \<open>None\<close> means that the loop ran
  to its end without returning.
\<close>

fun walkChain :: "ProviderAvailability \<Rightarrow> NativeFallbackEntry list \<Rightarrow> string option" where
  "walkChain avail [] = None"
| "walkChain avail (e # rest) =
     (if nativeFlag (native avail) (provider e) then Some (entry_model e)
      else walkChain avail rest)"

definition resolveModel :: "ModelCapability \<Rightarrow> ProviderAvailability \<Rightarrow> string" where
  "resolveModel cap avail =
     (case walkChain avail (NATIVE_FALLBACK_CHAINS cap) of
        Some m \<Rightarrow> m
      | None \<Rightarrow>
          if opencodeZen avail then OPENCODE_ZEN_MODELS cap
          else if copilot avail then GITHUB_COPILOT_MODELS cap
          else if zai avail then ZAI_MODEL
          else ULTIMATE_FALLBACK)"

definition resolveClaudeCapability :: "ProviderAvailability \<Rightarrow> ModelCapability" where
  "resolveClaudeCapability avail = (if isMaxPlan avail then UnspecifiedHigh else UnspecifiedLow)"

text \<open>
  \<open>req.variant ? { model, variant: req.variant } : { model }\<close>: an absent or empty variant is
  falsy and gives an object without the \<open>variant\<close> key.
\<close>

definition withVariant :: "string \<Rightarrow> string option \<Rightarrow> AgentConfig" where
  "withVariant m v =
     (case v of
        None \<Rightarrow> \<lparr>model = m, variant = None\<rparr>
      | Some s \<Rightarrow> if s = [] then \<lparr>model = m, variant = None\<rparr> else \<lparr>model = m, variant = Some s\<rparr>)"

text \<open>The body of the loop over \<open>Object.entries(AGENT_REQUIREMENTS)\<close>: the value assigned to \<open>agents[role]\<close>.\<close>

definition agentFor :: "ProviderAvailability \<Rightarrow> string \<Rightarrow> AgentRequirement \<Rightarrow> AgentConfig" where
  "agentFor avail role req =
     (if role = ''librarian'' \<and> zai avail then \<lparr>model = ZAI_MODEL, variant = None\<rparr>
      else if role = ''explore'' then
        (if claude (native avail) \<and> isMaxPlan avail
         then \<lparr>model = ''anthropic/claude-haiku-4-5'', variant = None\<rparr>
         else \<lparr>model = ''opencode/grok-code'', variant = None\<rparr>)
      else
        (let cap = (if capability req = UnspecifiedHigh then resolveClaudeCapability avail
                    else capability req);
             m = resolveModel cap avail
         in withVariant m (req_variant req)))"

text \<open>The body of the loop over \<open>Object.entries(CATEGORY_REQUIREMENTS)\<close>.\<close>

definition categoryFor :: "ProviderAvailability \<Rightarrow> CategoryRequirement \<Rightarrow> CategoryConfig" where
  "categoryFor avail req =
     (let cap = (if capability req = UnspecifiedHigh then resolveClaudeCapability avail
                 else capability req);
          m = resolveModel cap avail
      in withVariant m (req_variant req))"

definition generateModelConfig :: "InstallConfig \<Rightarrow> GeneratedOmoConfig" where
  "generateModelConfig config =
     (let avail = toProviderAvailability config;
          hasAnyProvider =
            (claude (native avail) \<or> openai (native avail) \<or> gemini (native avail) \<or>
             opencodeZen avail \<or> copilot avail \<or> zai avail)
      in if \<not> hasAnyProvider then
           \<lparr>schema = SCHEMA_URL,
            agents = map (\<lambda>role. (role, \<lparr>model = ULTIMATE_FALLBACK, variant = None\<rparr>))
                       (map fst AGENT_REQUIREMENTS),
            categories = map (\<lambda>cat. (cat, \<lparr>model = ULTIMATE_FALLBACK, variant = None\<rparr>))
                       (map fst CATEGORY_REQUIREMENTS)\<rparr>
         else
           \<lparr>schema = SCHEMA_URL,
            agents = map (\<lambda>(role, req). (role, agentFor avail role req)) AGENT_REQUIREMENTS,
            categories = map (\<lambda>(cat, req). (cat, categoryFor avail req)) CATEGORY_REQUIREMENTS\<rparr>)"

text \<open>
  The algorithm of section 4.4 of the specification, written from its words: the first
  matching entry of the native chain, then the one pooled-access flag with the
  capability's pool model, then a secondary pooled-access flag with a fixed identifier,
  then the ultimate fallback. The pool is OpenCode Zen; the secondary flag is the Z.ai
  coding plan, the only provider whose identifier is the same for every capability.
\<close>

definition resolveModel_spec :: "ModelCapability \<Rightarrow> ProviderAvailability \<Rightarrow> string" where
  "resolveModel_spec cap avail =
     (case find (\<lambda>e. nativeFlag (native avail) (provider e)) (NATIVE_FALLBACK_CHAINS cap) of
        Some e \<Rightarrow> entry_model e
      | None \<Rightarrow>
          if opencodeZen avail then OPENCODE_ZEN_MODELS cap
          else if zai avail then ZAI_MODEL
          else ULTIMATE_FALLBACK)"

text \<open>Looking a role or category up in a generated map.\<close>

definition modelOf :: "(string \<times> AgentConfig) list \<Rightarrow> string \<Rightarrow> string option" where
  "modelOf m k = map_option model (map_of m k)"

section \<open>JavaScript values and the deep merge unit (config-manager module)\<close>

text \<open>
  The values that a parsed settings document and a generated document are made of. An object
  is the list of its own properties in insertion order; a property may hold \<open>undefined\<close>,
  which is why \<open>JUndefined\<close> is a value. Numbers are carried as integers: no function below
  computes with them.
\<close>

datatype jsval =
    JUndefined
  | JNull
  | JBool bool
  | JNum int
  | JStr string
  | JArr "jsval list"
  | JObj "(string \<times> jsval) list"

text \<open>The \<open>typeof\<close> operator and \<open>Array.isArray\<close>.\<close>

fun typeof :: "jsval \<Rightarrow> string" where
  "typeof JUndefined = ''undefined''"
| "typeof JNull = ''object''"
| "typeof (JBool b) = ''boolean''"
| "typeof (JNum n) = ''number''"
| "typeof (JStr s) = ''string''"
| "typeof (JArr xs) = ''object''"
| "typeof (JObj ps) = ''object''"

fun isArray :: "jsval \<Rightarrow> bool" where
  "isArray (JArr xs) = True"
| "isArray v = False"

text \<open>The own properties of a value used as an object.\<close>

fun properties :: "jsval \<Rightarrow> (string \<times> jsval) list" where
  "properties (JObj ps) = ps"
| "properties v = []"

text \<open>
  \<open>obj[key]\<close> reads a property (\<open>undefined\<close> when the key is absent); \<open>obj[key] = v\<close>
  overwrites the property in place or appends a new one.
\<close>

definition getProp :: "(string \<times> jsval) list \<Rightarrow> string \<Rightarrow> jsval" where
  "getProp obj key = (case map_of obj key of None \<Rightarrow> JUndefined | Some v \<Rightarrow> v)"

definition setProp :: "string \<Rightarrow> jsval \<Rightarrow> (string \<times> jsval) list \<Rightarrow> (string \<times> jsval) list" where
  "setProp key v obj = AList.update key v obj"

text \<open>
  JavaScript handles two kinds of property names in a way of their own. On an object
  without an own property \<open>__proto__\<close>, reading \<open>obj["__proto__"]\<close> yields the prototype and
  assigning to it changes the prototype (or does nothing): no property is created. And an
  own property whose name is an array index (a canonical decimal numeral) is listed before
  all other properties, in numeric order, wherever it was created. \<open>getProp\<close> and
  \<open>setProp\<close> treat every name as an ordinary one: a read sees the own properties only, an
  assignment to a new name appends it. They are what the code does for the keys that are
  ordinary: not \<open>__proto__\<close> and not made of decimal digits only (no array index is left).
  The other names that a plain object inherits (\<open>constructor\<close>, \<open>toString\<close> and the
  like) are ordinary: what is inherited there is a function, which fails the test
  \<open>typeof targetValue === "object"\<close> as \<open>undefined\<close> does, and an assignment creates an own
  property.
  \<open>ordinaryKeys\<close> says that every key of every object nested in a value is ordinary; the
  elements of arrays are not looked at, as \<open>deepMerge\<close> never enters an array.
\<close>

definition isDigit :: "char \<Rightarrow> bool" where
  "isDigit c = (48 \<le> (of_char c :: nat) \<and> (of_char c :: nat) \<le> 57)"

definition ordinaryKey :: "string \<Rightarrow> bool" where
  "ordinaryKey key = (key \<noteq> ''__proto__'' \<and> \<not> (key \<noteq> [] \<and> list_all isDigit key))"

fun ordinaryKeys :: "jsval \<Rightarrow> bool"
  and ordinaryProps :: "(string \<times> jsval) list \<Rightarrow> bool"
where
  "ordinaryKeys (JObj ps) = ordinaryProps ps"
| "ordinaryKeys v = True"
| "ordinaryProps [] = True"
| "ordinaryProps ((k, v) # ps) = (ordinaryKey k \<and> ordinaryKeys v \<and> ordinaryProps ps)"

text \<open>
  The loop \<open>for (const key of Object.keys(source))\<close> of \<open>deepMerge\<close>, run on the
  properties of the source that are still to be visited; \<open>result\<close> is the object under
  construction. The recursive call of \<open>deepMerge\<close> on two nested plain objects is the
  inner \<open>mergeLoop\<close>. The loop is the code for a source with ordinary keys
  (\<open>ordinaryProps\<close>), which is how it is used below: the generated document has ordinary
  keys only, and the contract of \<open>deepMerge\<close> is stated for such sources.
\<close>

function mergeLoop :: "(string \<times> jsval) list \<Rightarrow> (string \<times> jsval) list \<Rightarrow> (string \<times> jsval) list" where
  "mergeLoop result [] = result"
| "mergeLoop result ((key, sourceValue) # rest) =
     (let targetValue = getProp result key in
      if sourceValue \<noteq> JNull \<and> typeof sourceValue = ''object'' \<and> \<not> isArray sourceValue \<and>
         targetValue \<noteq> JNull \<and> typeof targetValue = ''object'' \<and> \<not> isArray targetValue
      then mergeLoop (setProp key (JObj (mergeLoop (properties targetValue) (properties sourceValue))) result) rest
      else if sourceValue \<noteq> JUndefined
      then mergeLoop (setProp key sourceValue result) rest
      else mergeLoop result rest)"
  by pat_completeness auto
termination
  by (relation "measure (\<lambda>(result, source). size (JObj source))")
    (auto elim!: typeof.elims isArray.elims)

text \<open>
  \<open>deepMerge(target, source)\<close>: \<open>result\<close> starts as the shallow copy \<open>{ ...target }\<close>,
  the loop runs over the keys of the source, and \<open>result\<close> is returned.
\<close>

definition deepMerge :: "(string \<times> jsval) list \<Rightarrow> (string \<times> jsval) list \<Rightarrow> (string \<times> jsval) list" where
  "deepMerge target source = mergeLoop target source"

section \<open>The deep merge on a store of objects\<close>

text \<open>
  JavaScript objects are references. To state that \<open>deepMerge\<close> leaves its arguments
  alone, the function is modelled a second time on an explicit store: a heap is the list of
  the allocated objects, an address is an index into it, and allocation appends. A value is
  a primitive or a reference. The recursion of \<open>deepMerge\<close> on a cyclic structure need not
  end, so this model takes fuel: \<open>None\<close> means that the fuel ran out, or that the call is
  outside the model: an argument is not the address of a plain object (which the type of
  \<open>deepMerge\<close> excludes), or the source has a key that is not ordinary (\<open>__proto__\<close>
  or digits only), for which a property list with own properties in insertion order does
  not say what JavaScript does.
\<close>

datatype hval = HUndefined | HNull | HBool bool | HNum int | HStr string | HRef nat

datatype hobj = HArray "hval list" | HObject "(string \<times> hval) list"

type_synonym heap = "hobj list"

definition deref :: "heap \<Rightarrow> nat \<Rightarrow> hobj option" where
  "deref h a = (if a < length h then Some (h ! a) else None)"

text \<open>
  \<open>v !== null && typeof v === "object" && !Array.isArray(v)\<close> on a value of the store:
  a reference to a plain object.
\<close>

definition isObjectRef :: "heap \<Rightarrow> hval \<Rightarrow> bool" where
  "isObjectRef h v =
     (case v of
        HRef a \<Rightarrow> (case deref h a of Some (HObject ps) \<Rightarrow> True | _ \<Rightarrow> False)
      | _ \<Rightarrow> False)"

fun address :: "hval \<Rightarrow> nat" where
  "address (HRef a) = a"
| "address v = 0"

text \<open>Reading and assigning a property of the object at an address.\<close>

definition readProp :: "heap \<Rightarrow> nat \<Rightarrow> string \<Rightarrow> hval" where
  "readProp h a key =
     (case deref h a of
        Some (HObject ps) \<Rightarrow> (case map_of ps key of None \<Rightarrow> HUndefined | Some v \<Rightarrow> v)
      | _ \<Rightarrow> HUndefined)"

definition writeProp :: "heap \<Rightarrow> nat \<Rightarrow> string \<Rightarrow> hval \<Rightarrow> heap" where
  "writeProp h a key v =
     (case deref h a of
        Some (HObject ps) \<Rightarrow> h[a := HObject (AList.update key v ps)]
      | _ \<Rightarrow> h)"

text \<open>
  \<open>deepMerge_heap\<close> allocates \<open>result\<close> as a copy of the properties of the target, then
  \<open>mergeKeys_heap\<close> runs the loop over \<open>Object.keys(source)\<close>, reading \<open>source[key]\<close> and
  \<open>result[key]\<close> from the store and assigning to \<open>result[key]\<close> in the store. The loop
  stops with \<open>None\<close> at a key that is not ordinary.
\<close>

fun deepMerge_heap :: "nat \<Rightarrow> heap \<Rightarrow> nat \<Rightarrow> nat \<Rightarrow> (heap \<times> nat) option"
  and mergeKeys_heap :: "nat \<Rightarrow> heap \<Rightarrow> nat \<Rightarrow> nat \<Rightarrow> string list \<Rightarrow> heap option"
where
  "deepMerge_heap 0 h target source = None"
| "deepMerge_heap (Suc n) h target source =
     (case (deref h target, deref h source) of
        (Some (HObject tprops), Some (HObject sprops)) \<Rightarrow>
          (let result = length h;
               h1 = h @ [HObject tprops]
           in case mergeKeys_heap n h1 result source (map fst sprops) of
                None \<Rightarrow> None
              | Some h2 \<Rightarrow> Some (h2, result))
      | _ \<Rightarrow> None)"
| "mergeKeys_heap n h result source [] = Some h"
| "mergeKeys_heap n h result source (key # keys) =
     (if \<not> ordinaryKey key then None
      else
        (let sourceValue = readProp h source key;
             targetValue = readProp h result key
         in if isObjectRef h sourceValue \<and> isObjectRef h targetValue
            then (case deepMerge_heap n h (address targetValue) (address sourceValue) of
                    None \<Rightarrow> None
                  | Some (h', merged) \<Rightarrow>
                      mergeKeys_heap n (writeProp h' result key (HRef merged)) result source keys)
            else if sourceValue \<noteq> HUndefined
            then mergeKeys_heap n (writeProp h result key sourceValue) result source keys
            else mergeKeys_heap n h result source keys))"

text \<open>
  When a value of the store stands for a value of the tree model. \<open>repr X h v t\<close> follows the
  references of \<open>v\<close> in the heap \<open>h\<close> along the tree \<open>t\<close>; the addresses in \<open>X\<close> may not be
  visited. The keys of an object are distinct.
\<close>

lemma list_all2_fundef_cong [fundef_cong]:
  "xs = xs' \<Longrightarrow> ys = ys' \<Longrightarrow> (\<And>x y. x \<in> set xs' \<Longrightarrow> y \<in> set ys' \<Longrightarrow> P x y = Q x y)
   \<Longrightarrow> list_all2 P xs ys = list_all2 Q xs' ys'"
  by (auto simp: list_all2_conv_all_nth)





section \<open>Platform: errors, files and the modules outside the sources\<close>

text \<open>
  An exception is a value: the class of the thrown error (what \<open>instanceof\<close> tests), the
  \<open>code\<close> property that Node.js puts on the errors of the file system, and the message.
  A function that may throw returns a sum, \<open>Inl\<close> carrying the thrown error.
\<close>

datatype error_class = Error | SyntaxError | TypeError

datatype js_error = JsError (err_class: error_class) (err_code: "string option") (err_message: string)

definition isPermissionError :: "js_error \<Rightarrow> bool" where
  "isPermissionError err = (err_code err = Some ''EACCES'' \<or> err_code err = Some ''EPERM'')"

definition isFileNotFoundError :: "js_error \<Rightarrow> bool" where
  "isFileNotFoundError err = (err_code err = Some ''ENOENT'')"

text \<open>\<open>message.includes(pattern)\<close>.\<close>

fun includesStr :: "string \<Rightarrow> string \<Rightarrow> bool" where
  "includesStr [] pattern = (pattern = [])"
| "includesStr (c # cs) pattern = (prefix pattern (c # cs) \<or> includesStr cs pattern)"

definition formatErrorWithSuggestion :: "js_error \<Rightarrow> string \<Rightarrow> string" where
  "formatErrorWithSuggestion err ctx =
     (if isPermissionError err then
        ''Permission denied: Cannot '' @ ctx @
        ''. Try running with elevated permissions or check file ownership.''
      else if isFileNotFoundError err then
        ''File not found while trying to '' @ ctx @ ''. The file may have been deleted or moved.''
      else if err_class err = SyntaxError then
        ''JSON syntax error while trying to '' @ ctx @ '': '' @ err_message err @
        ''. Check for missing commas, brackets, or invalid characters.''
      else
        (let message = err_message err
         in if includesStr message ''ENOSPC'' then
              ''Disk full: Cannot '' @ ctx @ ''. Free up disk space and try again.''
            else if includesStr message ''EROFS'' then
              ''Read-only filesystem: Cannot '' @ ctx @
              ''. Check if the filesystem is mounted read-only.''
            else ''Failed to '' @ ctx @ '': '' @ message))"

record ConfigMergeResult =
  success :: bool
  configPath :: string
  error :: "string option"

definition succeeded :: "string \<Rightarrow> ConfigMergeResult" where
  "succeeded path = \<lparr>success = True, configPath = path, error = None\<rparr>"

definition failed :: "string \<Rightarrow> string \<Rightarrow> ConfigMergeResult" where
  "failed path msg = \<lparr>success = False, configPath = path, error = Some msg\<rparr>"

text \<open>
  The file system maps a path to a regular file with its text, to a directory, or to
  nothing. A text is a list of characters with code points below 256. The paths of the
  configuration files are meant to name regular files: \<open>statSync\<close> on a directory, whose
  reported size depends on the platform, is modelled as the error that the read following
  it raises.
\<close>

datatype node = File string | Directory

type_synonym fs = "string \<Rightarrow> node option"

datatype fs_op = Mkdir string | Stat string | Read string | Write string

datatype ConfigFormat = Json | Jsonc | NoFormat

text \<open>
  What the functions of \<open>config-manager\<close> take from outside the sources: the paths of
  \<open>getConfigContext().paths\<close> (computed by \<open>getOpenCodeConfigPaths\<close> of the shared module),
  \<open>parseJsonc\<close> of the shared module (it returns the parsed value or throws),
  \<open>JSON.stringify(value, null, 2)\<close>, the failures that the operating system may
  inject into a file operation, and the answer of the package registry to
  \<open>fetchNpmDistTags\<close> (\<open>None\<close> when the request fails or is refused). All of them are
  parameters: the theorems hold for every parser, serializer and failure pattern.
\<close>

record host =
  configDir :: string
  configJson :: string
  configJsonc :: string
  omoConfig :: string
  parseJsonc :: "string \<Rightarrow> js_error + jsval"
  stringify :: "jsval \<Rightarrow> string"
  fault :: "fs_op \<Rightarrow> js_error option"
  distTags :: "(string \<times> string) list option"

definition fsError :: "string \<Rightarrow> string \<Rightarrow> js_error" where
  "fsError code msg = JsError Error (Some code) (code @ '': '' @ msg)"

definition existsSync :: "fs \<Rightarrow> string \<Rightarrow> bool" where
  "existsSync fs path = (fs path \<noteq> None)"

definition mkdirSync :: "host \<Rightarrow> fs \<Rightarrow> string \<Rightarrow> js_error + fs" where
  "mkdirSync host fs path =
     (case fault host (Mkdir path) of
        Some err \<Rightarrow> Inl err
      | None \<Rightarrow>
          (case fs path of
             Some (File content) \<Rightarrow> Inl (fsError ''EEXIST'' ''file already exists, mkdir'')
           | _ \<Rightarrow> Inr (fs(path \<mapsto> Directory))))"

text \<open>The size that \<open>statSync\<close> reports: the length of the UTF-8 encoding of the text.\<close>

definition byteLength :: "string \<Rightarrow> nat" where
  "byteLength content = sum_list (map (\<lambda>c. if of_char c < (128::nat) then 1 else 2) content)"

definition statSync :: "host \<Rightarrow> fs \<Rightarrow> string \<Rightarrow> js_error + nat" where
  "statSync host fs path =
     (case fault host (Stat path) of
        Some err \<Rightarrow> Inl err
      | None \<Rightarrow>
          (case fs path of
             None \<Rightarrow> Inl (fsError ''ENOENT'' ''no such file or directory, stat'')
           | Some Directory \<Rightarrow> Inl (fsError ''EISDIR'' ''illegal operation on a directory, read'')
           | Some (File content) \<Rightarrow> Inr (byteLength content)))"

definition readFileSync :: "host \<Rightarrow> fs \<Rightarrow> string \<Rightarrow> js_error + string" where
  "readFileSync host fs path =
     (case fault host (Read path) of
        Some err \<Rightarrow> Inl err
      | None \<Rightarrow>
          (case fs path of
             None \<Rightarrow> Inl (fsError ''ENOENT'' ''no such file or directory, open'')
           | Some Directory \<Rightarrow> Inl (fsError ''EISDIR'' ''illegal operation on a directory, read'')
           | Some (File content) \<Rightarrow> Inr content))"

definition writeFileSync :: "host \<Rightarrow> fs \<Rightarrow> string \<Rightarrow> string \<Rightarrow> js_error + fs" where
  "writeFileSync host fs path content =
     (case fault host (Write path) of
        Some err \<Rightarrow> Inl err
      | None \<Rightarrow>
          (case fs path of
             Some Directory \<Rightarrow> Inl (fsError ''EISDIR'' ''illegal operation on a directory, open'')
           | _ \<Rightarrow> Inr (fs(path \<mapsto> File content))))"

definition PACKAGE_NAME :: string where
  "PACKAGE_NAME = ''oh-my-opencode''"

definition PRIORITIZED_TAGS :: "string list" where
  "PRIORITIZED_TAGS = [''latest'', ''beta'', ''next'']"

text \<open>The elements of \<open>new Set(xs)\<close> in iteration order: the first occurrence of each.\<close>

definition setOrder :: "'a list \<Rightarrow> 'a list" where
  "setOrder xs = rev (remdups (rev xs))"

definition getPluginNameWithVersion :: "host \<Rightarrow> string \<Rightarrow> string" where
  "getPluginNameWithVersion host currentVersion =
     (case distTags host of
        Some tags \<Rightarrow>
          (let allTags = setOrder (PRIORITIZED_TAGS @ map fst tags)
           in case find (\<lambda>tag. map_of tags tag = Some currentVersion) allTags of
                Some tag \<Rightarrow> PACKAGE_NAME @ ''@'' @ tag
              | None \<Rightarrow> PACKAGE_NAME @ ''@'' @ currentVersion)
      | None \<Rightarrow> PACKAGE_NAME @ ''@'' @ currentVersion)"

definition detectConfigFormat :: "host \<Rightarrow> fs \<Rightarrow> ConfigFormat \<times> string" where
  "detectConfigFormat host fs =
     (if existsSync fs (configJsonc host) then (Jsonc, configJsonc host)
      else if existsSync fs (configJson host) then (Json, configJson host)
      else (NoFormat, configJson host))"

text \<open>
  White space as \<open>String.prototype.trim\<close> and the class \<open>\s\<close> of a regular expression
  see it, among the code points below 256: tab, line feed, vertical tab, form feed,
  carriage return, space and the no-break space.
\<close>

definition isWhitespace :: "char \<Rightarrow> bool" where
  "isWhitespace c = (of_char c \<in> {9, 10, 11, 12, 13, 32, 160 :: nat})"

definition trim :: "string \<Rightarrow> string" where
  "trim s = rev (dropWhile isWhitespace (rev (dropWhile isWhitespace s)))"

definition isEmptyOrWhitespace :: "string \<Rightarrow> bool" where
  "isEmptyOrWhitespace content = (length (trim content) = 0)"

record ParseConfigResult =
  config :: "jsval option"
  parse_error :: "string option"

definition parseFailed :: "string \<Rightarrow> ParseConfigResult" where
  "parseFailed msg = \<lparr>config = None, parse_error = Some msg\<rparr>"

definition parseConfigWithError :: "host \<Rightarrow> fs \<Rightarrow> string \<Rightarrow> ParseConfigResult" where
  "parseConfigWithError host fs path =
     (case statSync host fs path of
        Inl err \<Rightarrow> parseFailed (formatErrorWithSuggestion err (''parse config file '' @ path))
      | Inr fileSize \<Rightarrow>
          if fileSize = 0 then
            parseFailed (''Config file is empty: '' @ path @
              ''. Delete it or add valid JSON content.'')
          else
            (case readFileSync host fs path of
               Inl err \<Rightarrow>
                 parseFailed (formatErrorWithSuggestion err (''parse config file '' @ path))
             | Inr content \<Rightarrow>
                 if isEmptyOrWhitespace content then
                   parseFailed (''Config file contains only whitespace: '' @ path @
                     ''. Delete it or add valid JSON content.'')
                 else
                   (case parseJsonc host content of
                      Inl err \<Rightarrow>
                        parseFailed
                          (formatErrorWithSuggestion err (''parse config file '' @ path))
                    | Inr cfg \<Rightarrow>
                        if cfg = JNull \<or> cfg = JUndefined then
                          parseFailed (''Config file parsed to null/undefined: '' @ path @
                            ''. Ensure it contains valid JSON.'')
                        else if typeof cfg \<noteq> ''object'' \<or> isArray cfg then
                          parseFailed (''Config file must contain a JSON object, not '' @
                            (if isArray cfg then ''an array'' else typeof cfg) @ '': '' @ path)
                        else \<lparr>config = Some cfg, parse_error = None\<rparr>)))"

definition ensureConfigDir :: "host \<Rightarrow> fs \<Rightarrow> js_error + fs" where
  "ensureConfigDir host fs =
     (if \<not> existsSync fs (configDir host) then mkdirSync host fs (configDir host)
      else Inr fs)"

section \<open>The plugin registry editor (addPluginToOpenCodeConfig)\<close>

text \<open>
  The predicate of \<open>plugins.findIndex\<close>: \<open>p === PACKAGE_NAME || p.startsWith(PACKAGE_NAME + "@")\<close>.
  On an element that is not a string the comparison is false and \<open>p.startsWith\<close> is not a
  function, so the call throws a \<open>TypeError\<close> (one message stands for all of them); the
  search stops at the first match and never looks at the elements behind it.
\<close>

definition isOwnPlugin :: "string \<Rightarrow> bool" where
  "isOwnPlugin p = (p = PACKAGE_NAME \<or> prefix (PACKAGE_NAME @ ''@'') p)"

definition notAFunction :: "string \<Rightarrow> js_error" where
  "notAFunction what = JsError TypeError None (what @ '' is not a function'')"

fun findIndex :: "jsval list \<Rightarrow> js_error + nat option" where
  "findIndex [] = Inr None"
| "findIndex (JStr p # rest) =
     (if isOwnPlugin p then Inr (Some 0)
      else (case findIndex rest of
              Inl err \<Rightarrow> Inl err
            | Inr None \<Rightarrow> Inr None
            | Inr (Some i) \<Rightarrow> Inr (Some (Suc i))))"
| "findIndex (v # rest) = Inl (notAFunction ''p.startsWith'')"

text \<open>
  The edit of the list in memory: \<open>None\<close> when the entry found is already the wanted one
  (the function then returns without writing), otherwise the list with the found entry
  overwritten in place, or with the wanted entry pushed at the end when none was found.
\<close>

definition editPluginList :: "jsval list \<Rightarrow> string \<Rightarrow> js_error + jsval list option" where
  "editPluginList plugins pluginEntry =
     (case findIndex plugins of
        Inl err \<Rightarrow> Inl err
      | Inr (Some existingIndex) \<Rightarrow>
          if plugins ! existingIndex = JStr pluginEntry then Inr None
          else Inr (Some (plugins[existingIndex := JStr pluginEntry]))
      | Inr None \<Rightarrow> Inr (Some (plugins @ [JStr pluginEntry])))"

text \<open>The position of the first entry of a list of plugin names that names this package.\<close>

definition firstOwn :: "string list \<Rightarrow> nat" where
  "firstOwn ps = length (takeWhile (\<lambda>p. \<not> isOwnPlugin p) ps)"

text \<open>
  The conversion of a value to a string inside a template literal. Strings stand for
  themselves; the other cases only arise for entries of the plugin list that are not
  strings.
\<close>

function digitsOf :: "nat \<Rightarrow> string" where
  "digitsOf n =
     (if n < 10 then [char_of (48 + n)] else digitsOf (n div 10) @ [char_of (48 + n mod 10)])"
  by pat_completeness auto
termination
  by (relation "measure id") auto

definition join :: "string \<Rightarrow> string list \<Rightarrow> string" where
  "join sep xs = concat (case xs of [] \<Rightarrow> [] | x # rest \<Rightarrow> x # map (\<lambda>y. sep @ y) rest)"

fun toString :: "jsval \<Rightarrow> string" where
  "toString JUndefined = ''undefined''"
| "toString JNull = ''null''"
| "toString (JBool b) = (if b then ''true'' else ''false'')"
| "toString (JNum n) = (if n < 0 then ''-'' @ digitsOf (nat (- n)) else digitsOf (nat n))"
| "toString (JStr s) = s"
| "toString (JArr xs) =
     join '','' (map (\<lambda>x. if x = JNull \<or> x = JUndefined then [] else toString x) xs)"
| "toString (JObj ps) = ''[object Object]''"

text \<open>
  The regular expression \<open>/"plugin"\s*:\s*\[([\s\S]*?)\]/\<close>. \<open>matchPluginArrayAt s\<close> matches it
  at the start of \<open>s\<close> and returns the matched text, the text of the group and the text
  after the match: the key in double quotes, white space, a colon, white space, an opening
  bracket, then everything up to the first closing bracket. \<open>searchPluginArray\<close> finds the
  leftmost match, as \<open>content.match\<close> and \<open>content.replace\<close> do, and also returns the text
  before it.
\<close>

definition splitAtChar :: "char \<Rightarrow> string \<Rightarrow> (string \<times> string) option" where
  "splitAtChar c s =
     (case dropWhile (\<lambda>d. d \<noteq> c) s of
        [] \<Rightarrow> None
      | d # rest \<Rightarrow> Some (takeWhile (\<lambda>d. d \<noteq> c) s, rest))"

definition matchPluginArrayAt :: "string \<Rightarrow> (string \<times> string \<times> string) option" where
  \<open>matchPluginArrayAt s =
     (if prefix ''"plugin"'' s then
        (let s1 = drop 8 s;
             ws1 = takeWhile isWhitespace s1;
             s2 = dropWhile isWhitespace s1
         in case s2 of
              [] \<Rightarrow> None
            | c # s3 \<Rightarrow>
                if c \<noteq> CHR '':'' then None
                else
                  (let ws2 = takeWhile isWhitespace s3;
                       s4 = dropWhile isWhitespace s3
                   in case s4 of
                        [] \<Rightarrow> None
                      | d # s5 \<Rightarrow>
                          if d \<noteq> CHR ''['' then None
                          else
                            (case splitAtChar CHR '']'' s5 of
                               None \<Rightarrow> None
                             | Some (inner, after) \<Rightarrow>
                                 Some (''"plugin"'' @ ws1 @ '':'' @ ws2 @ ''['' @ inner @ '']'',
                                       inner, after))))
      else None)\<close>

fun searchPluginArray :: "string \<Rightarrow> string \<Rightarrow> (string \<times> string \<times> string \<times> string) option" where
  "searchPluginArray before [] =
     (case matchPluginArrayAt [] of
        Some (matched, inner, after) \<Rightarrow> Some (before, matched, inner, after)
      | None \<Rightarrow> None)"
| "searchPluginArray before (c # cs) =
     (case matchPluginArrayAt (c # cs) of
        Some (matched, inner, after) \<Rightarrow> Some (before, matched, inner, after)
      | None \<Rightarrow> searchPluginArray (before @ [c]) cs)"

text \<open>
  The replacement text of \<open>String.prototype.replace\<close> for a pattern with one group:
  \<open>$$\<close> is a dollar sign, \<open>$&\<close> the matched text, \<open>$`\<close> the text before the match,
  \<open>$'\<close> the text after it, \<open>$1\<close> and \<open>$01\<close> the group; any other dollar sign stands for
  itself.
\<close>

fun expandReplacement :: "string \<Rightarrow> string \<Rightarrow> string \<Rightarrow> string \<Rightarrow> string \<Rightarrow> string" where
  "expandReplacement before matched group1 after [] = []"
| "expandReplacement before matched group1 after [c] = [c]"
| "expandReplacement before matched group1 after (c # d # rest) =
     (if c \<noteq> CHR ''$'' then c # expandReplacement before matched group1 after (d # rest)
      else if d = CHR ''$'' then CHR ''$'' # expandReplacement before matched group1 after rest
      else if d = CHR ''&'' then matched @ expandReplacement before matched group1 after rest
      else if d = CHR 0x60 then before @ expandReplacement before matched group1 after rest
      else if d = CHR 0x27 then after @ expandReplacement before matched group1 after rest
      else if d = CHR ''1'' then group1 @ expandReplacement before matched group1 after rest
      else if d = CHR ''0'' \<and> rest \<noteq> [] \<and> hd rest = CHR ''1''
      then group1 @ expandReplacement before matched group1 after (tl rest)
      else c # expandReplacement before matched group1 after (d # rest))"

text \<open>
  \<open>content.replace(pluginArrayRegex, replacement)\<close> and
  \<open>content.replace(/^(\s*\{)/, replacement)\<close>: the first match is replaced; a text without a
  match is returned as it is. The second pattern is anchored at the start of the text.
\<close>

definition replacePluginArray :: "string \<Rightarrow> string \<Rightarrow> string" where
  "replacePluginArray content replacement =
     (case searchPluginArray [] content of
        None \<Rightarrow> content
      | Some (before, matched, inner, after) \<Rightarrow>
          before @ expandReplacement before matched inner after replacement @ after)"

definition replaceOpeningBrace :: "string \<Rightarrow> string \<Rightarrow> string" where
  "replaceOpeningBrace content replacement =
     (let ws = takeWhile isWhitespace content;
          rest = dropWhile isWhitespace content
      in case rest of
           [] \<Rightarrow> content
         | c # after \<Rightarrow>
             if c \<noteq> CHR ''{'' then content
             else expandReplacement [] (ws @ ''{'') (ws @ ''{'') after replacement @ after)"

text \<open>
  The body of the \<open>try\<close> block of \<open>addPluginToOpenCodeConfig\<close>, from the test of the format
  to the last \<open>return\<close>: \<open>Inl\<close> is an exception on its way to the \<open>catch\<close> clause, \<open>Inr\<close>
  the returned result with the file system as the block leaves it.
\<close>

definition updatePluginList :: "host \<Rightarrow> fs \<Rightarrow> ConfigFormat \<Rightarrow> string \<Rightarrow> string \<Rightarrow> js_error + (ConfigMergeResult \<times> fs)" where
  \<open>updatePluginList host fs format path pluginEntry =
     (if format = NoFormat then
        (case writeFileSync host fs path
                (stringify host (JObj [(''plugin'', JArr [JStr pluginEntry])]) @ ''\<newline>'') of
           Inl err \<Rightarrow> Inl err
         | Inr fs' \<Rightarrow> Inr (succeeded path, fs'))
      else
        (let parseResult = parseConfigWithError host fs path
         in case config parseResult of
              None \<Rightarrow>
                Inr (failed path
                       (case parse_error parseResult of
                          Some msg \<Rightarrow> msg
                        | None \<Rightarrow> ''Failed to parse config file''),
                     fs)
            | Some cfg \<Rightarrow>
                (let plugins =
                       (case getProp (properties cfg) ''plugin'' of
                          JUndefined \<Rightarrow> JArr []
                        | JNull \<Rightarrow> JArr []
                        | v \<Rightarrow> v)
                 in case plugins of
                      JArr elems \<Rightarrow>
                        (case editPluginList elems pluginEntry of
                           Inl err \<Rightarrow> Inl err
                         | Inr None \<Rightarrow> Inr (succeeded path, fs)
                         | Inr (Some elems') \<Rightarrow>
                             (let cfg' = setProp ''plugin'' (JArr elems') (properties cfg)
                              in if format = Jsonc then
                                   (case readFileSync host fs path of
                                      Inl err \<Rightarrow> Inl err
                                    | Inr content \<Rightarrow>
                                        (let newContent =
                                           (if searchPluginArray [] content \<noteq> None then
                                              (let formattedPlugins =
                                                 join '',\<newline>    ''
                                                   (map (\<lambda>p. ''"'' @ toString p @ ''"'') elems')
                                               in replacePluginArray content
                                                    (''"plugin": [\<newline>    '' @ formattedPlugins @
                                                     ''\<newline>  ]''))
                                            else
                                              replaceOpeningBrace content
                                                (''$1\<newline>  "plugin": ["'' @ pluginEntry @ ''"],''))
                                         in case writeFileSync host fs path newContent of
                                              Inl err \<Rightarrow> Inl err
                                            | Inr fs' \<Rightarrow> Inr (succeeded path, fs')))
                                 else
                                   (case writeFileSync host fs path
                                           (stringify host (JObj cfg') @ ''\<newline>'') of
                                      Inl err \<Rightarrow> Inl err
                                    | Inr fs' \<Rightarrow> Inr (succeeded path, fs'))))
                    | v \<Rightarrow> Inl (notAFunction ''plugins.findIndex''))))\<close>

definition addPluginToOpenCodeConfig :: "host \<Rightarrow> fs \<Rightarrow> string \<Rightarrow> ConfigMergeResult \<times> fs" where
  "addPluginToOpenCodeConfig host fs currentVersion =
     (case ensureConfigDir host fs of
        Inl err \<Rightarrow>
          (failed (configDir host) (formatErrorWithSuggestion err ''create config directory''), fs)
      | Inr fs1 \<Rightarrow>
          (let (format, path) = detectConfigFormat host fs1;
               pluginEntry = getPluginNameWithVersion host currentVersion
           in case updatePluginList host fs1 format path pluginEntry of
                Inl err \<Rightarrow>
                  (failed path (formatErrorWithSuggestion err ''update opencode config''), fs1)
              | Inr (result, fs2) \<Rightarrow> (result, fs2)))"

section \<open>The settings writer (writeOmoConfig)\<close>

text \<open>The generated document as an object value, as \<open>generateOmoConfig\<close> hands it on.\<close>

definition agentConfigValue :: "AgentConfig \<Rightarrow> jsval" where
  "agentConfigValue a =
     JObj ((''model'', JStr (model a)) #
           (case variant a of None \<Rightarrow> [] | Some v \<Rightarrow> [(''variant'', JStr v)]))"

definition generateOmoConfig :: "InstallConfig \<Rightarrow> (string \<times> jsval) list" where
  "generateOmoConfig installConfig =
     (let generated = generateModelConfig installConfig
      in [(''$schema'', JStr (schema generated)),
          (''agents'', JObj (map (\<lambda>(role, a). (role, agentConfigValue a)) (agents generated))),
          (''categories'',
             JObj (map (\<lambda>(cat, a). (cat, agentConfigValue a)) (categories generated)))])"

text \<open>The values that \<open>!v\<close> takes for false.\<close>

fun falsy :: "jsval \<Rightarrow> bool" where
  "falsy JUndefined = True"
| "falsy JNull = True"
| "falsy (JBool b) = (\<not> b)"
| "falsy (JNum n) = (n = 0)"
| "falsy (JStr s) = (s = [])"
| "falsy v = False"

text \<open>\<open>writeFileSync(omoConfigPath, JSON.stringify(doc, null, 2) + "\n")\<close>.\<close>

definition writeDocument :: "host \<Rightarrow> fs \<Rightarrow> (string \<times> jsval) list \<Rightarrow> js_error + fs" where
  "writeDocument host fs doc =
     writeFileSync host fs (omoConfig host) (stringify host (JObj doc) @ ''\<newline>'')"

text \<open>
  The body of the inner \<open>try\<close> block of \<open>writeOmoConfig\<close>: the file exists; it is measured,
  read, parsed and merged. \<open>Inl\<close> is an exception on its way to the inner \<open>catch\<close> clause.
\<close>

definition mergeExisting :: "host \<Rightarrow> fs \<Rightarrow> (string \<times> jsval) list \<Rightarrow> js_error + fs" where
  "mergeExisting host fs newConfig =
     (case statSync host fs (omoConfig host) of
        Inl err \<Rightarrow> Inl err
      | Inr fileSize \<Rightarrow>
          (case readFileSync host fs (omoConfig host) of
             Inl err \<Rightarrow> Inl err
           | Inr content \<Rightarrow>
               if fileSize = 0 \<or> isEmptyOrWhitespace content then writeDocument host fs newConfig
               else
                 (case parseJsonc host content of
                    Inl err \<Rightarrow> Inl err
                  | Inr existing \<Rightarrow>
                      if falsy existing \<or> typeof existing \<noteq> ''object'' \<or> isArray existing
                      then writeDocument host fs newConfig
                      else writeDocument host fs (deepMerge (properties existing) newConfig))))"

text \<open>
  The body of the outer \<open>try\<close> block, with the inner \<open>catch\<close> clause: a \<open>SyntaxError\<close> is
  answered by writing the fresh document, any other exception is thrown on.
\<close>

definition writeSettings :: "host \<Rightarrow> fs \<Rightarrow> InstallConfig \<Rightarrow> js_error + fs" where
  "writeSettings host fs installConfig =
     (let newConfig = generateOmoConfig installConfig
      in if existsSync fs (omoConfig host) then
           (case mergeExisting host fs newConfig of
              Inl parseErr \<Rightarrow>
                if err_class parseErr = SyntaxError then writeDocument host fs newConfig
                else Inl parseErr
            | Inr fs' \<Rightarrow> Inr fs')
         else writeDocument host fs newConfig)"

definition writeOmoConfig :: "host \<Rightarrow> fs \<Rightarrow> InstallConfig \<Rightarrow> ConfigMergeResult \<times> fs" where
  "writeOmoConfig host fs installConfig =
     (case ensureConfigDir host fs of
        Inl err \<Rightarrow>
          (failed (configDir host) (formatErrorWithSuggestion err ''create config directory''), fs)
      | Inr fs1 \<Rightarrow>
          (case writeSettings host fs1 installConfig of
             Inl err \<Rightarrow>
               (failed (omoConfig host)
                  (formatErrorWithSuggestion err ''write oh-my-opencode config''), fs1)
           | Inr fs2 \<Rightarrow> (succeeded (omoConfig host), fs2)))"

text \<open>
  The contents that the specification calls unusable for a merge: a zero-byte file, a file
  of white space only, a text that \<open>parseJsonc\<close> rejects with a \<open>SyntaxError\<close>, and a text
  that parses to something other than a plain object.
\<close>

definition unusable :: "host \<Rightarrow> string \<Rightarrow> bool" where
  "unusable host content =
     (byteLength content = 0 \<or> isEmptyOrWhitespace content \<or>
      (case parseJsonc host content of
         Inl err \<Rightarrow> err_class err = SyntaxError
       | Inr v \<Rightarrow> falsy v \<or> typeof v \<noteq> ''object'' \<or> isArray v))"

section \<open>Concrete inputs\<close>

text \<open>The provider declarations and install configurations at which the theorems below are evaluated.\<close>

definition claudeOnlyAvail :: ProviderAvailability where
  "claudeOnlyAvail =
     \<lparr>native = \<lparr>claude = True, openai = False, gemini = False\<rparr>,
      opencodeZen = False, copilot = False, zai = False, isMaxPlan = True\<rparr>"

definition copilotOnlyAvail :: ProviderAvailability where
  "copilotOnlyAvail =
     \<lparr>native = \<lparr>claude = False, openai = False, gemini = False\<rparr>,
      opencodeZen = False, copilot = True, zai = False, isMaxPlan = False\<rparr>"

definition zaiOnlyAvail :: ProviderAvailability where
  "zaiOnlyAvail =
     \<lparr>native = \<lparr>claude = False, openai = False, gemini = False\<rparr>,
      opencodeZen = False, copilot = False, zai = True, isMaxPlan = False\<rparr>"

definition claudeMaxConfig :: InstallConfig where
  "claudeMaxConfig =
     \<lparr>hasClaude = True, isMax20 = True, hasOpenAI = False, hasGemini = False,
      hasCopilot = False, hasOpencodeZen = False, hasZaiCodingPlan = False\<rparr>"

definition claudeStandardConfig :: InstallConfig where
  "claudeStandardConfig =
     \<lparr>hasClaude = True, isMax20 = False, hasOpenAI = False, hasGemini = False,
      hasCopilot = False, hasOpencodeZen = False, hasZaiCodingPlan = False\<rparr>"

definition noProviderConfig :: InstallConfig where
  "noProviderConfig =
     \<lparr>hasClaude = False, isMax20 = True, hasOpenAI = False, hasGemini = False,
      hasCopilot = False, hasOpencodeZen = False, hasZaiCodingPlan = False\<rparr>"

definition allNativeConfig :: InstallConfig where
  "allNativeConfig =
     \<lparr>hasClaude = True, isMax20 = True, hasOpenAI = True, hasGemini = True,
      hasCopilot = False, hasOpencodeZen = False, hasZaiCodingPlan = False\<rparr>"




text \<open>
  A host for the concrete runs: the paths of a configuration directory \<open>/cfg\<close>, no failing
  file operation, a registry that does not answer, a parser given by a table of the texts
  used below (any other text is a syntax error), and as serializer the layout of
  \<open>JSON.stringify(value, null, 2)\<close> for values whose strings need no escape beyond the
  quote, the backslash and the line feed.
\<close>

definition pad :: "nat \<Rightarrow> string" where
  "pad n = replicate n CHR '' ''"

fun quoteJson :: "string \<Rightarrow> string" where
  "quoteJson [] = []"
| "quoteJson (c # cs) =
     (if c = CHR 0x22 then [CHR 0x5C, CHR 0x22] @ quoteJson cs
      else if c = CHR 0x5C then [CHR 0x5C, CHR 0x5C] @ quoteJson cs
      else if c = CHR 0x0A then [CHR 0x5C, CHR ''n''] @ quoteJson cs
      else c # quoteJson cs)"

fun printJson :: "nat \<Rightarrow> jsval \<Rightarrow> string" where
  "printJson ind JUndefined = ''null''"
| "printJson ind JNull = ''null''"
| "printJson ind (JBool b) = (if b then ''true'' else ''false'')"
| "printJson ind (JNum n) = toString (JNum n)"
| "printJson ind (JStr s) = [CHR 0x22] @ quoteJson s @ [CHR 0x22]"
| "printJson ind (JArr xs) =
     (if xs = [] then ''[]''
      else ''['' @ [CHR 0x0A] @
           join ('','' @ [CHR 0x0A]) (map (\<lambda>x. pad (ind + 2) @ printJson (ind + 2) x) xs) @
           [CHR 0x0A] @ pad ind @ '']'')"
| "printJson ind (JObj ps) =
     (if filter (\<lambda>kv. snd kv \<noteq> JUndefined) ps = [] then ''{}''
      else ''{'' @ [CHR 0x0A] @
           join ('','' @ [CHR 0x0A])
             (map (\<lambda>kv. pad (ind + 2) @ [CHR 0x22] @ quoteJson (fst kv) @ [CHR 0x22] @ '': '' @
                          printJson (ind + 2) (snd kv))
                (filter (\<lambda>kv. snd kv \<noteq> JUndefined) ps)) @
           [CHR 0x0A] @ pad ind @ ''}'')"

definition cfgDir :: string where
  "cfgDir = ''/cfg''"

definition jsonPath :: string where
  "jsonPath = ''/cfg/opencode.json''"

definition jsoncPath :: string where
  "jsoncPath = ''/cfg/opencode.jsonc''"

definition omoPath :: string where
  "omoPath = ''/cfg/oh-my-opencode.json''"

text \<open>A settings file with a key of the user's own.\<close>

definition customSettingsText :: string where
  \<open>customSettingsText = ''{"custom": {"x": 1}}''\<close>

text \<open>
  A commented configuration whose plugin list is preceded by a commented-out older list,
  and the text that \<open>addPluginToOpenCodeConfig\<close> leaves for the version 3.0.0.
\<close>

definition commentedListText :: string where
  \<open>commentedListText =
     ''{\<newline>  // "plugin": ["oh-my-opencode@1.0.0"],\<newline>  "plugin": ["oh-my-opencode@2.0.0"]\<newline>}\<newline>''\<close>

definition commentedListResult :: string where
  \<open>commentedListResult =
     ''{\<newline>  // "plugin": [\<newline>    "oh-my-opencode@3.0.0"\<newline>  ],\<newline>  "plugin": ["oh-my-opencode@2.0.0"]\<newline>}\<newline>''\<close>

text \<open>A commented configuration without a plugin list that starts with a comment line.\<close>

definition leadingCommentText :: string where
  \<open>leadingCommentText = ''// my settings\<newline>{\<newline>  "theme": "dark"\<newline>}\<newline>''\<close>

definition syntaxError :: js_error where
  "syntaxError = JsError SyntaxError None ''JSONC parse error''"

definition sampleParse :: "string \<Rightarrow> js_error + jsval" where
  "sampleParse content =
     (if content = customSettingsText then Inr (JObj [(''custom'', JObj [(''x'', JNum 1)])])
      else if content = commentedListText then
        Inr (JObj [(''plugin'', JArr [JStr ''oh-my-opencode@2.0.0''])])
      else if content = leadingCommentText then Inr (JObj [(''theme'', JStr ''dark'')])
      else if content = ''[1]'' then Inr (JArr [JNum 1])
      else Inl syntaxError)"

definition sampleHost :: host where
  "sampleHost =
     \<lparr>configDir = cfgDir, configJson = jsonPath, configJsonc = jsoncPath, omoConfig = omoPath,
      parseJsonc = sampleParse, stringify = printJson 0, fault = (\<lambda>op. None),
      distTags = None\<rparr>"

text \<open>The file system with the directory \<open>/cfg\<close> and one file.\<close>

definition fsWith :: "string \<Rightarrow> string \<Rightarrow> fs" where
  "fsWith path content = (Map.empty(cfgDir \<mapsto> Directory))(path \<mapsto> File content)"

section \<open>Properties of the model resolution engine\<close>

lemmas table_defs = AGENT_REQUIREMENTS_def CATEGORY_REQUIREMENTS_def requirement_def

lemma walkChain_find:
  "walkChain avail chain =
     map_option entry_model (find (\<lambda>e. nativeFlag (native avail) (provider e)) chain)"
  by (induction chain) simp_all

lemma walkChain_None:
  "(walkChain avail chain = None) = (\<forall>e\<in>set chain. \<not> nativeFlag (native avail) (provider e))"
  by (induction chain) simp_all

lemma walkChain_Some:
  "walkChain avail chain = Some m \<Longrightarrow> \<exists>e\<in>set chain. m = entry_model e"
  by (induction chain) (auto split: if_splits)

lemma chain_models_nonempty:
  "e \<in> set (NATIVE_FALLBACK_CHAINS cap) \<Longrightarrow> entry_model e \<noteq> []"
  by (cases cap) (auto simp: entry_def)

lemma pool_models_nonempty:
  "OPENCODE_ZEN_MODELS cap \<noteq> []" "GITHUB_COPILOT_MODELS cap \<noteq> []"
  by (cases cap; simp)+

text \<open>
  Claim C1. For every capability tag and every provider availability (all assignments of the
  seven flags), \<open>resolveModel\<close> returns a non-empty identifier; it is a total function, so it
  never throws. When no entry of the capability's native chain names an available provider
  and none of the pooled-access flags (OpenCode Zen, Copilot, Z.ai) is set, the result is the
  one ultimate fallback \<open>opencode/glm-4.7-free\<close>, a constant that does not depend on the
  capability.
\<close>

theorem resolveModel_nonempty:
  "resolveModel cap avail \<noteq> [] \<and>
   ((\<forall>e\<in>set (NATIVE_FALLBACK_CHAINS cap). \<not> nativeFlag (native avail) (provider e)) \<and>
    \<not> opencodeZen avail \<and> \<not> copilot avail \<and> \<not> zai avail
    \<longrightarrow> resolveModel cap avail = ULTIMATE_FALLBACK) \<and>
   ULTIMATE_FALLBACK = ''opencode/glm-4.7-free''"
proof (intro conjI impI)
  show "resolveModel cap avail \<noteq> []"
  proof (cases "walkChain avail (NATIVE_FALLBACK_CHAINS cap)")
    case None
    then show ?thesis
      by (simp add: resolveModel_def pool_models_nonempty ZAI_MODEL_def ULTIMATE_FALLBACK_def)
  next
    case (Some m)
    then obtain e where "e \<in> set (NATIVE_FALLBACK_CHAINS cap)" "m = entry_model e"
      using walkChain_Some by blast
    then have "m \<noteq> []" by (simp add: chain_models_nonempty)
    with Some show ?thesis by (simp add: resolveModel_def)
  qed
next
  assume "(\<forall>e\<in>set (NATIVE_FALLBACK_CHAINS cap). \<not> nativeFlag (native avail) (provider e)) \<and>
    \<not> opencodeZen avail \<and> \<not> copilot avail \<and> \<not> zai avail"
  then show "resolveModel cap avail = ULTIMATE_FALLBACK"
    by (simp add: resolveModel_def walkChain_None [symmetric])
next
  show "ULTIMATE_FALLBACK = ''opencode/glm-4.7-free''" by (simp add: ULTIMATE_FALLBACK_def)
qed

text \<open>
  Witness for C1: the capability \<open>glm\<close> with only Claude declared. The native chain of
  \<open>glm\<close> is empty and no pooled flag is set, so the result is the ultimate fallback.
\<close>

theorem resolveModel_nonempty_witness:
  "resolveModel Glm claudeOnlyAvail \<noteq> [] \<and>
   resolveModel Glm claudeOnlyAvail = ''opencode/glm-4.7-free''"
  using resolveModel_nonempty [of Glm claudeOnlyAvail]
  by (simp add: claudeOnlyAvail_def ULTIMATE_FALLBACK_def)

text \<open>
  Claim C2, as amended. \<open>resolveModel\<close> returns the model of the first entry of the native
  chain whose provider is available; if there is none it checks, in this order, the OpenCode
  Zen flag (the capability's Zen model), the Copilot flag (the capability's Copilot model),
  the Z.ai flag (the fixed Z.ai model), and otherwise returns the ultimate fallback. The
  specification leaves the Copilot step out.
\<close>

theorem resolveModel_order:
  "resolveModel cap avail =
     (case find (\<lambda>e. nativeFlag (native avail) (provider e)) (NATIVE_FALLBACK_CHAINS cap) of
        Some e \<Rightarrow> entry_model e
      | None \<Rightarrow>
          if opencodeZen avail then OPENCODE_ZEN_MODELS cap
          else if copilot avail then GITHUB_COPILOT_MODELS cap
          else if zai avail then ZAI_MODEL
          else ULTIMATE_FALLBACK)"
  by (simp add: resolveModel_def walkChain_find split: option.split)

text \<open>
  Counterexample to C2 as stated: with Copilot as the only declared provider, the order of
  the specification gives the ultimate fallback for the capability \<open>quick\<close>, and the code
  returns the Copilot model of that capability. The Copilot identifier is not a fixed one
  either (for \<open>ultrabrain\<close> it is a different model), and with Z.ai as the only provider the
  code returns the Z.ai model: Copilot and Z.ai are two further steps, not one.
\<close>

theorem resolveModel_order_counterexample:
  "resolveModel Quick copilotOnlyAvail = ''github-copilot/claude-haiku-4.5'' \<and>
   resolveModel_spec Quick copilotOnlyAvail = ''opencode/glm-4.7-free'' \<and>
   resolveModel Quick copilotOnlyAvail \<noteq> resolveModel_spec Quick copilotOnlyAvail \<and>
   resolveModel Ultrabrain copilotOnlyAvail = ''github-copilot/gpt-5.2-codex'' \<and>
   resolveModel Quick zaiOnlyAvail = ''zai-coding-plan/glm-4.7''"
  by (simp add: resolveModel_def resolveModel_spec_def copilotOnlyAvail_def zaiOnlyAvail_def
      entry_def ULTIMATE_FALLBACK_def ZAI_MODEL_def)

lemma map_of_map_key:
  "map_of (map (\<lambda>(k, v). (k, f k v)) xs) k = map_option (f k) (map_of xs k)"
  by (induction xs) auto

lemma map_of_const_map:
  "map_of (map (\<lambda>k. (k, v)) ks) k = (if k \<in> set ks then Some v else None)"
  by (induction ks) auto

lemma distinct_agent_keys: "distinct (map fst AGENT_REQUIREMENTS)"
  by (simp add: table_defs)

lemma distinct_category_keys: "distinct (map fst CATEGORY_REQUIREMENTS)"
  by (simp add: table_defs)

lemma agent_requirement_lookup:
  "(role, req) \<in> set AGENT_REQUIREMENTS \<Longrightarrow> map_of AGENT_REQUIREMENTS role = Some req"
  by (rule map_of_is_SomeI [OF distinct_agent_keys])

lemma category_requirement_lookup:
  "(cat, req) \<in> set CATEGORY_REQUIREMENTS \<Longrightarrow> map_of CATEGORY_REQUIREMENTS cat = Some req"
  by (rule map_of_is_SomeI [OF distinct_category_keys])

lemma librarian_requirement:
  "map_of AGENT_REQUIREMENTS ''librarian'' = Some (requirement Glm None)"
  by (simp add: AGENT_REQUIREMENTS_def)

lemma explore_requirement:
  "map_of AGENT_REQUIREMENTS ''explore'' = Some (requirement Quick None)"
  by (simp add: AGENT_REQUIREMENTS_def)

lemma model_withVariant: "model (withVariant m v) = m"
  by (simp add: withVariant_def split: option.split)

lemma generateModelConfig_any:
  "hasClaude c \<or> hasOpenAI c \<or> hasGemini c \<or> hasOpencodeZen c \<or> hasCopilot c \<or>
   hasZaiCodingPlan c \<Longrightarrow>
   generateModelConfig c =
     \<lparr>schema = SCHEMA_URL,
      agents = map (\<lambda>(role, req). (role, agentFor (toProviderAvailability c) role req))
                 AGENT_REQUIREMENTS,
      categories = map (\<lambda>(cat, req). (cat, categoryFor (toProviderAvailability c) req))
                 CATEGORY_REQUIREMENTS\<rparr>"
  unfolding generateModelConfig_def Let_def
  by (subst if_not_P) (auto simp: toProviderAvailability_def)

lemma generateModelConfig_none:
  "\<not> hasClaude c \<Longrightarrow> \<not> hasOpenAI c \<Longrightarrow> \<not> hasGemini c \<Longrightarrow> \<not> hasOpencodeZen c \<Longrightarrow>
   \<not> hasCopilot c \<Longrightarrow> \<not> hasZaiCodingPlan c \<Longrightarrow>
   generateModelConfig c =
     \<lparr>schema = SCHEMA_URL,
      agents = map (\<lambda>role. (role, \<lparr>model = ULTIMATE_FALLBACK, variant = None\<rparr>))
                 (map fst AGENT_REQUIREMENTS),
      categories = map (\<lambda>cat. (cat, \<lparr>model = ULTIMATE_FALLBACK, variant = None\<rparr>))
                 (map fst CATEGORY_REQUIREMENTS)\<rparr>"
  by (simp add: generateModelConfig_def toProviderAvailability_def)

lemma agent_model_generic:
  assumes "hasClaude c \<or> hasOpenAI c \<or> hasGemini c \<or> hasOpencodeZen c \<or> hasCopilot c \<or>
    hasZaiCodingPlan c"
    and "(role, req) \<in> set AGENT_REQUIREMENTS"
  shows "modelOf (agents (generateModelConfig c)) role =
           Some (model (agentFor (toProviderAvailability c) role req))"
  using assms(2)
  by (simp add: generateModelConfig_any [OF assms(1)] modelOf_def map_of_map_key
      agent_requirement_lookup)

lemma category_model_generic:
  assumes "hasClaude c \<or> hasOpenAI c \<or> hasGemini c \<or> hasOpencodeZen c \<or> hasCopilot c \<or>
    hasZaiCodingPlan c"
    and "(cat, req) \<in> set CATEGORY_REQUIREMENTS"
  shows "modelOf (categories (generateModelConfig c)) cat =
           Some (model (categoryFor (toProviderAvailability c) req))"
  using assms(2)
  by (simp add: generateModelConfig_any [OF assms(1)] modelOf_def
      map_of_map_key [where f = "\<lambda>k. categoryFor (toProviderAvailability c)"]
      category_requirement_lookup)

text \<open>
  Claim C3, as amended. With Claude declared available, every role and category that
  requires \<open>unspecified-high\<close> is resolved with the capability \<open>unspecified-high\<close> when
  \<open>isMax20\<close> is set and with \<open>unspecified-low\<close> when it is not; the substitution is made on
  the capability, before \<open>resolveModel\<close> walks the chain. The category that requires
  \<open>unspecified-low\<close> is always resolved as \<open>unspecified-low\<close>. So the two requirements get
  the same identifier (\<open>anthropic/claude-sonnet-4-5\<close>) exactly when \<open>isMax20\<close> is false; with
  \<open>isMax20\<close> set, the high requirement gets \<open>anthropic/claude-opus-4-5\<close> and the low one
  keeps \<open>anthropic/claude-sonnet-4-5\<close>.
\<close>

theorem tier_coupling:
  assumes "hasClaude c"
  shows "(\<forall>role req. (role, req) \<in> set AGENT_REQUIREMENTS \<and> capability req = UnspecifiedHigh \<longrightarrow>
            modelOf (agents (generateModelConfig c)) role =
              Some (resolveModel (if isMax20 c then UnspecifiedHigh else UnspecifiedLow)
                      (toProviderAvailability c))) \<and>
         (\<forall>cat req. (cat, req) \<in> set CATEGORY_REQUIREMENTS \<and> capability req = UnspecifiedHigh \<longrightarrow>
            modelOf (categories (generateModelConfig c)) cat =
              Some (resolveModel (if isMax20 c then UnspecifiedHigh else UnspecifiedLow)
                      (toProviderAvailability c))) \<and>
         (\<forall>cat req. (cat, req) \<in> set CATEGORY_REQUIREMENTS \<and> capability req = UnspecifiedLow \<longrightarrow>
            modelOf (categories (generateModelConfig c)) cat =
              Some (resolveModel UnspecifiedLow (toProviderAvailability c))) \<and>
         resolveModel UnspecifiedHigh (toProviderAvailability c) = ''anthropic/claude-opus-4-5'' \<and>
         resolveModel UnspecifiedLow (toProviderAvailability c) = ''anthropic/claude-sonnet-4-5''"
proof (intro conjI allI impI)
  from assms have any: "hasClaude c \<or> hasOpenAI c \<or> hasGemini c \<or> hasOpencodeZen c \<or>
      hasCopilot c \<or> hasZaiCodingPlan c"
    by simp
  {
    fix role req
    assume a: "(role, req) \<in> set AGENT_REQUIREMENTS \<and> capability req = UnspecifiedHigh"
    then have look: "map_of AGENT_REQUIREMENTS role = Some req"
      by (simp add: agent_requirement_lookup)
    have "role \<noteq> ''librarian''"
      using look a librarian_requirement by (auto simp: requirement_def)
    moreover have "role \<noteq> ''explore''"
      using look a explore_requirement by (auto simp: requirement_def)
    ultimately
    have "model (agentFor (toProviderAvailability c) role req) =
            resolveModel (if isMax20 c then UnspecifiedHigh else UnspecifiedLow)
              (toProviderAvailability c)"
      using a by (simp add: agentFor_def model_withVariant resolveClaudeCapability_def
          toProviderAvailability_def)
    then show "modelOf (agents (generateModelConfig c)) role =
          Some (resolveModel (if isMax20 c then UnspecifiedHigh else UnspecifiedLow)
                  (toProviderAvailability c))"
      using agent_model_generic [OF any, of role req] a by (simp only: simp_thms)
  }
  {
    fix cat req
    assume a: "(cat, req) \<in> set CATEGORY_REQUIREMENTS \<and> capability req = UnspecifiedHigh"
    then have "model (categoryFor (toProviderAvailability c) req) =
            resolveModel (if isMax20 c then UnspecifiedHigh else UnspecifiedLow)
              (toProviderAvailability c)"
      by (simp add: categoryFor_def model_withVariant resolveClaudeCapability_def
          toProviderAvailability_def)
    then show "modelOf (categories (generateModelConfig c)) cat =
          Some (resolveModel (if isMax20 c then UnspecifiedHigh else UnspecifiedLow)
                  (toProviderAvailability c))"
      using category_model_generic [OF any, of cat req] a by (simp only: simp_thms)
  }
  {
    fix cat req
    assume a: "(cat, req) \<in> set CATEGORY_REQUIREMENTS \<and> capability req = UnspecifiedLow"
    then have "model (categoryFor (toProviderAvailability c) req) =
            resolveModel UnspecifiedLow (toProviderAvailability c)"
      by (simp add: categoryFor_def model_withVariant)
    then show "modelOf (categories (generateModelConfig c)) cat =
          Some (resolveModel UnspecifiedLow (toProviderAvailability c))"
      using category_model_generic [OF any, of cat req] a by (simp only: simp_thms)
  }
  show "resolveModel UnspecifiedHigh (toProviderAvailability c) = ''anthropic/claude-opus-4-5''"
    using assms by (simp add: resolveModel_def toProviderAvailability_def entry_def)
  show "resolveModel UnspecifiedLow (toProviderAvailability c) = ''anthropic/claude-sonnet-4-5''"
    using assms by (simp add: resolveModel_def toProviderAvailability_def entry_def)
qed

text \<open>
  Witness for C3 as amended: Claude on the standard tier. Sisyphus and the category
  \<open>unspecified-high\<close> get the same model as the category \<open>unspecified-low\<close>.
\<close>

theorem tier_coupling_witness:
  "hasClaude claudeStandardConfig \<and>
   modelOf (agents (generateModelConfig claudeStandardConfig)) ''Sisyphus'' =
     Some ''anthropic/claude-sonnet-4-5'' \<and>
   modelOf (categories (generateModelConfig claudeStandardConfig)) ''unspecified-high'' =
     Some ''anthropic/claude-sonnet-4-5'' \<and>
   modelOf (categories (generateModelConfig claudeStandardConfig)) ''unspecified-low'' =
     Some ''anthropic/claude-sonnet-4-5''"
proof -
  have h: "hasClaude claudeStandardConfig" by (simp add: claudeStandardConfig_def)
  have m: "\<not> isMax20 claudeStandardConfig" by (simp add: claudeStandardConfig_def)
  have a: "(''Sisyphus'', requirement UnspecifiedHigh None) \<in> set AGENT_REQUIREMENTS"
    by (simp add: AGENT_REQUIREMENTS_def)
  have b: "(''unspecified-high'', requirement UnspecifiedHigh None) \<in> set CATEGORY_REQUIREMENTS"
    by (simp add: CATEGORY_REQUIREMENTS_def)
  have d: "(''unspecified-low'', requirement UnspecifiedLow None) \<in> set CATEGORY_REQUIREMENTS"
    by (simp add: CATEGORY_REQUIREMENTS_def)
  have cap: "capability (requirement UnspecifiedHigh None) = UnspecifiedHigh"
     "capability (requirement UnspecifiedLow None) = UnspecifiedLow"
    by (simp_all add: requirement_def)
  note t = tier_coupling [OF h]
  from t a b d cap m h show ?thesis by force
qed

text \<open>
  Counterexample to C3 as stated: Claude on the higher tier (\<open>isMax20\<close> set). The category
  that requires \<open>unspecified-low\<close> gets \<open>anthropic/claude-sonnet-4-5\<close>, while the category and
  the role (Sisyphus) that require \<open>unspecified-high\<close> get \<open>anthropic/claude-opus-4-5\<close>.
\<close>

theorem tier_upgrade_counterexample:
  "hasClaude claudeMaxConfig \<and> isMax20 claudeMaxConfig \<and>
   modelOf (categories (generateModelConfig claudeMaxConfig)) ''unspecified-low''
     = Some ''anthropic/claude-sonnet-4-5'' \<and>
   modelOf (categories (generateModelConfig claudeMaxConfig)) ''unspecified-high''
     = Some ''anthropic/claude-opus-4-5'' \<and>
   modelOf (agents (generateModelConfig claudeMaxConfig)) ''Sisyphus''
     = Some ''anthropic/claude-opus-4-5''"
  by (simp add: claudeMaxConfig_def generateModelConfig_def toProviderAvailability_def
      agentFor_def categoryFor_def resolveClaudeCapability_def resolveModel_def withVariant_def
      modelOf_def entry_def table_defs)

text \<open>
  Claim C4. When every provider flag is false, the generated document has, in its \<open>agents\<close>
  map, exactly the keys of \<open>AGENT_REQUIREMENTS\<close> and, in its \<open>categories\<close> map, exactly the
  keys of \<open>CATEGORY_REQUIREMENTS\<close>, and the model of every one of them is the ultimate
  fallback \<open>opencode/glm-4.7-free\<close>.
\<close>

theorem no_provider_fallback:
  assumes "\<not> hasClaude c" "\<not> hasOpenAI c" "\<not> hasGemini c"
    "\<not> hasOpencodeZen c" "\<not> hasCopilot c" "\<not> hasZaiCodingPlan c"
  shows "map fst (agents (generateModelConfig c)) = map fst AGENT_REQUIREMENTS \<and>
         map fst (categories (generateModelConfig c)) = map fst CATEGORY_REQUIREMENTS \<and>
         (\<forall>role \<in> set (map fst AGENT_REQUIREMENTS).
            modelOf (agents (generateModelConfig c)) role = Some ULTIMATE_FALLBACK) \<and>
         (\<forall>cat \<in> set (map fst CATEGORY_REQUIREMENTS).
            modelOf (categories (generateModelConfig c)) cat = Some ULTIMATE_FALLBACK) \<and>
         (\<forall>a \<in> set (agents (generateModelConfig c)). model (snd a) = ULTIMATE_FALLBACK) \<and>
         (\<forall>a \<in> set (categories (generateModelConfig c)). model (snd a) = ULTIMATE_FALLBACK) \<and>
         ULTIMATE_FALLBACK = ''opencode/glm-4.7-free''"
proof -
  note g = generateModelConfig_none [OF assms]
  have 1: "map fst (agents (generateModelConfig c)) = map fst AGENT_REQUIREMENTS"
    by (simp add: g comp_def)
  have 2: "map fst (categories (generateModelConfig c)) = map fst CATEGORY_REQUIREMENTS"
    by (simp add: g comp_def)
  have 3: "\<forall>role \<in> set (map fst AGENT_REQUIREMENTS).
            modelOf (agents (generateModelConfig c)) role = Some ULTIMATE_FALLBACK"
    by (simp add: g modelOf_def map_of_const_map del: set_map map_map)
  have 4: "\<forall>cat \<in> set (map fst CATEGORY_REQUIREMENTS).
            modelOf (categories (generateModelConfig c)) cat = Some ULTIMATE_FALLBACK"
    by (simp add: g modelOf_def map_of_const_map del: set_map map_map)
  have 5: "\<forall>a \<in> set (agents (generateModelConfig c)). model (snd a) = ULTIMATE_FALLBACK"
    by (auto simp: g)
  have 6: "\<forall>a \<in> set (categories (generateModelConfig c)). model (snd a) = ULTIMATE_FALLBACK"
    by (auto simp: g)
  have 7: "ULTIMATE_FALLBACK = ''opencode/glm-4.7-free''"
    by (simp add: ULTIMATE_FALLBACK_def)
  from 1 2 3 4 5 6 7 show ?thesis by blast
qed

text \<open>
  Witness for C4: no provider at all (the tier flag is set, which changes nothing). The keys
  are the nine roles and the seven categories, and for instance \<open>explore\<close> and \<open>artistry\<close>
  get the ultimate fallback.
\<close>

theorem no_provider_fallback_witness:
  "map fst (agents (generateModelConfig noProviderConfig)) =
     [''Sisyphus'', ''oracle'', ''librarian'', ''explore'', ''multimodal-looker'',
      ''Prometheus (Planner)'', ''Metis (Plan Consultant)'', ''Momus (Plan Reviewer)'',
      ''Atlas''] \<and>
   map fst (categories (generateModelConfig noProviderConfig)) =
     [''visual-engineering'', ''ultrabrain'', ''artistry'', ''quick'', ''unspecified-low'',
      ''unspecified-high'', ''writing''] \<and>
   modelOf (agents (generateModelConfig noProviderConfig)) ''explore'' =
     Some ''opencode/glm-4.7-free'' \<and>
   modelOf (categories (generateModelConfig noProviderConfig)) ''artistry'' =
     Some ''opencode/glm-4.7-free''"
proof -
  have h: "\<not> hasClaude noProviderConfig" "\<not> hasOpenAI noProviderConfig"
    "\<not> hasGemini noProviderConfig" "\<not> hasOpencodeZen noProviderConfig"
    "\<not> hasCopilot noProviderConfig" "\<not> hasZaiCodingPlan noProviderConfig"
    by (simp_all add: noProviderConfig_def)
  note t = no_provider_fallback [OF h]
  have k1: "map fst AGENT_REQUIREMENTS =
     [''Sisyphus'', ''oracle'', ''librarian'', ''explore'', ''multimodal-looker'',
      ''Prometheus (Planner)'', ''Metis (Plan Consultant)'', ''Momus (Plan Reviewer)'',
      ''Atlas'']"
    by (simp add: table_defs)
  have k2: "map fst CATEGORY_REQUIREMENTS =
     [''visual-engineering'', ''ultrabrain'', ''artistry'', ''quick'', ''unspecified-low'',
      ''unspecified-high'', ''writing'']"
    by (simp add: table_defs)
  have e: "''explore'' \<in> set (map fst AGENT_REQUIREMENTS)" by (simp add: k1)
  have a: "''artistry'' \<in> set (map fst CATEGORY_REQUIREMENTS)" by (simp add: k2)
  from t k1 k2 e a show ?thesis by metis
qed

text \<open>
  Claim C10. The native chain of the capability \<open>glm\<close> is empty, so \<open>resolveModel\<close> for
  \<open>glm\<close> only ever returns the Zen, the Copilot, the Z.ai or the fallback identifier, none of
  which is a model of a native provider (\<open>anthropic/\<close>, \<open>openai/\<close>, \<open>google/\<close>). When the
  Z.ai, OpenCode Zen and Copilot flags are all false, the role \<open>librarian\<close> gets the ultimate
  fallback \<open>opencode/glm-4.7-free\<close>, whatever the native providers declared.
\<close>

theorem glm_never_native:
  "NATIVE_FALLBACK_CHAINS Glm = [] \<and>
   resolveModel Glm avail =
     (if opencodeZen avail then ''opencode/glm-4.7-free''
      else if copilot avail then ''github-copilot/gpt-5.2''
      else if zai avail then ''zai-coding-plan/glm-4.7''
      else ''opencode/glm-4.7-free'') \<and>
   \<not> prefix ''anthropic/'' (resolveModel Glm avail) \<and>
   \<not> prefix ''openai/'' (resolveModel Glm avail) \<and>
   \<not> prefix ''google/'' (resolveModel Glm avail) \<and>
   (\<not> hasZaiCodingPlan c \<and> \<not> hasOpencodeZen c \<and> \<not> hasCopilot c \<longrightarrow>
      modelOf (agents (generateModelConfig c)) ''librarian'' = Some ''opencode/glm-4.7-free'')"
proof (intro conjI impI)
  show "NATIVE_FALLBACK_CHAINS Glm = []" by simp
  show r: "resolveModel Glm avail =
     (if opencodeZen avail then ''opencode/glm-4.7-free''
      else if copilot avail then ''github-copilot/gpt-5.2''
      else if zai avail then ''zai-coding-plan/glm-4.7''
      else ''opencode/glm-4.7-free'')"
    by (simp add: resolveModel_def ZAI_MODEL_def ULTIMATE_FALLBACK_def)
  show "\<not> prefix ''anthropic/'' (resolveModel Glm avail)" by (simp add: r)
  show "\<not> prefix ''openai/'' (resolveModel Glm avail)" by (simp add: r)
  show "\<not> prefix ''google/'' (resolveModel Glm avail)" by (simp add: r)
next
  assume a: "\<not> hasZaiCodingPlan c \<and> \<not> hasOpencodeZen c \<and> \<not> hasCopilot c"
  have l: "agentFor (toProviderAvailability c) ''librarian'' (requirement Glm None) =
             \<lparr>model = ''opencode/glm-4.7-free'', variant = None\<rparr>"
    using a by (simp add: agentFor_def toProviderAvailability_def requirement_def
        resolveModel_def withVariant_def ULTIMATE_FALLBACK_def)
  show "modelOf (agents (generateModelConfig c)) ''librarian'' = Some ''opencode/glm-4.7-free''"
  proof (cases "hasClaude c \<or> hasOpenAI c \<or> hasGemini c")
    case True
    then have "hasClaude c \<or> hasOpenAI c \<or> hasGemini c \<or> hasOpencodeZen c \<or> hasCopilot c \<or>
        hasZaiCodingPlan c"
      by blast
    from generateModelConfig_any [OF this] show ?thesis
      by (simp add: modelOf_def AGENT_REQUIREMENTS_def l)
  next
    case False
    with a show ?thesis
      by (simp add: generateModelConfig_none modelOf_def AGENT_REQUIREMENTS_def
          ULTIMATE_FALLBACK_def)
  qed
qed

text \<open>
  Witness for C10: Claude, OpenAI and Gemini all declared, no pooled provider. The
  librarian still gets the ultimate fallback.
\<close>

theorem glm_never_native_witness:
  "hasClaude allNativeConfig \<and> hasOpenAI allNativeConfig \<and> hasGemini allNativeConfig \<and>
   modelOf (agents (generateModelConfig allNativeConfig)) ''librarian'' =
     Some ''opencode/glm-4.7-free''"
  using glm_never_native [of "toProviderAvailability allNativeConfig" allNativeConfig]
  by (simp add: allNativeConfig_def)

section \<open>Properties of the deep merge unit\<close>

subsection \<open>The result of the merge, key by key\<close>






subsection \<open>The store model refines the tree model\<close>






















text \<open>
  The store model does not answer for a source with a key that is not ordinary: the loop
  stops there, whatever the fuel. A target \<open>{a: 1}\<close> with the source parsed from
  \<open>{"__proto__": 5}\<close> or from \<open>{"0": 5}\<close> is outside the model.
\<close>

lemma mergeKeys_heap_refuses:
  "\<not> ordinaryKey key \<Longrightarrow> mergeKeys_heap n h result source (key # keys) = None"
  by simp

lemma deepMerge_heap_proto_refused:
  "deepMerge_heap n [HObject [(''a'', HNum 1)], HObject [(''__proto__'', HNum 5)]] 0 1 = None"
  by (cases n) (simp_all add: deref_def ordinaryKey_def)

lemma deepMerge_heap_index_refused:
  "deepMerge_heap n [HObject [(''a'', HNum 1)], HObject [(''0'', HNum 5)]] 0 1 = None"
  by (cases n) (simp_all add: deref_def ordinaryKey_def isDigit_def)




section \<open>Properties of the settings writer\<close>

lemma ensureConfigDir_keeps_files:
  assumes "ensureConfigDir host fs = Inr fs1" "fs p = Some (File c)"
  shows "fs1 p = Some (File c)"
  using assms
  by (auto simp: ensureConfigDir_def existsSync_def mkdirSync_def
      split: if_splits option.splits node.splits)



text \<open>
  The document that \<open>writeOmoConfig\<close> merges into the existing settings is the source of
  \<open>deepMerge\<close>, and all its keys are ordinary: the three top-level keys, the names of the
  agents and of the categories, and \<open>model\<close> and \<open>variant\<close>.
\<close>

lemma agentConfigValue_ordinary: "ordinaryKeys (agentConfigValue a)"
  by (simp add: agentConfigValue_def ordinaryKey_def isDigit_def split: option.split)

lemma ordinaryProps_agents:
  "ordinaryProps (map (\<lambda>(name, a). (name, agentConfigValue a)) xs) = list_all ordinaryKey (map fst xs)"
  by (induction xs) (auto simp: agentConfigValue_ordinary)

lemma generated_agent_names:
  "map fst (agents (generateModelConfig installConfig)) = map fst AGENT_REQUIREMENTS"
  by (simp add: generateModelConfig_def Let_def case_prod_unfold comp_def)

lemma generated_category_names:
  "map fst (categories (generateModelConfig installConfig)) = map fst CATEGORY_REQUIREMENTS"
  by (simp add: generateModelConfig_def Let_def case_prod_unfold comp_def)

lemma requirement_names_ordinary:
  "list_all ordinaryKey (map fst AGENT_REQUIREMENTS)"
  "list_all ordinaryKey (map fst CATEGORY_REQUIREMENTS)"
  by (simp_all add: AGENT_REQUIREMENTS_def CATEGORY_REQUIREMENTS_def ordinaryKey_def isDigit_def)

lemma generateOmoConfig_ordinary: "ordinaryProps (generateOmoConfig installConfig)"
proof -
  have "ordinaryKey ''$schema''" "ordinaryKey ''agents''" "ordinaryKey ''categories''"
    by (simp_all add: ordinaryKey_def isDigit_def)
  then show ?thesis
    by (simp add: generateOmoConfig_def Let_def ordinaryProps_agents generated_agent_names
        generated_category_names requirement_names_ordinary)
qed


lemma writeDocument_ok:
  "fault host (Write (omoConfig host)) = None \<Longrightarrow> fs (omoConfig host) = Some (File c) \<Longrightarrow>
   writeDocument host fs doc =
     Inr (fs(omoConfig host \<mapsto> File (stringify host (JObj doc) @ ''\<newline>'')))"
  by (simp add: writeDocument_def writeFileSync_def)

lemmas sample_defs = sampleHost_def fsWith_def cfgDir_def jsonPath_def jsoncPath_def omoPath_def
  sampleParse_def syntaxError_def

lemma sample_host_fields:
  "omoConfig sampleHost = omoPath" "stringify sampleHost = printJson 0"
  by (simp_all add: sampleHost_def)

lemma fsWith_overwrite: "(fsWith path a)(path \<mapsto> File b) = fsWith path b"
  by (simp add: fsWith_def)



lemma mergeExisting_unusable:
  assumes ex: "fs (omoConfig host) = Some (File content)"
    and io: "fault host (Stat (omoConfig host)) = None" "fault host (Read (omoConfig host)) = None"
    and bad: "unusable host content"
  shows "(case mergeExisting host fs newConfig of
            Inl parseErr \<Rightarrow>
              if err_class parseErr = SyntaxError then writeDocument host fs newConfig
              else Inl parseErr
          | Inr fs' \<Rightarrow> Inr fs') = writeDocument host fs newConfig"
  using assms
  by (auto simp: mergeExisting_def statSync_def readFileSync_def unusable_def
      split: sum.splits)

text \<open>
  Claim C8. Let the settings file exist and be readable, and let its content be unusable:
  zero bytes, white space only, rejected by the parser with a \<open>SyntaxError\<close>, or parsed to
  a value that is not a plain object. Then \<open>writeOmoConfig\<close> returns what it returns when
  the file is absent, and when the write itself goes through, that is success, with the
  file overwritten by the serialization of the freshly generated document. (The settings
  file is a path of its own, different from the configuration directory.)
\<close>

theorem writeOmoConfig_starts_fresh:
  assumes dir: "ensureConfigDir host fs = Inr fs1"
    and ex: "fs (omoConfig host) = Some (File content)"
    and io: "fault host (Stat (omoConfig host)) = None" "fault host (Read (omoConfig host)) = None"
    and bad: "unusable host content"
    and paths: "configDir host \<noteq> omoConfig host"
  shows "fst (writeOmoConfig host fs installConfig) =
           fst (writeOmoConfig host (fs(omoConfig host := None)) installConfig) \<and>
         (fault host (Write (omoConfig host)) = None \<longrightarrow>
            writeOmoConfig host fs installConfig =
              (succeeded (omoConfig host),
               fs1(omoConfig host \<mapsto>
                 File (stringify host (JObj (generateOmoConfig installConfig)) @ ''\<newline>''))))"
proof (intro conjI impI)
  have file1: "fs1 (omoConfig host) = Some (File content)"
    by (rule ensureConfigDir_keeps_files [OF dir ex])
  have ws: "writeSettings host fs1 installConfig =
          writeDocument host fs1 (generateOmoConfig installConfig)"
    using file1 mergeExisting_unusable [where fs = fs1, OF file1 io(1) io(2) bad]
    by (simp add: writeSettings_def existsSync_def Let_def)
  {
    assume w: "fault host (Write (omoConfig host)) = None"
    show "writeOmoConfig host fs installConfig =
              (succeeded (omoConfig host),
               fs1(omoConfig host \<mapsto>
                 File (stringify host (JObj (generateOmoConfig installConfig)) @ ''\<newline>'')))"
      using dir ws writeDocument_ok [where fs = fs1, OF w file1] by (simp add: writeOmoConfig_def)
  }
  show "fst (writeOmoConfig host fs installConfig) =
           fst (writeOmoConfig host (fs(omoConfig host := None)) installConfig)"
  proof -
    define fsA where "fsA = fs(omoConfig host := None)"
    define fsA1 where "fsA1 = fs1(omoConfig host := None)"
    have dirA: "ensureConfigDir host fsA = Inr fsA1"
      using dir paths
      by (auto simp: ensureConfigDir_def existsSync_def mkdirSync_def fsA_def fsA1_def
          split: if_splits option.splits node.splits)
    have wsA: "writeSettings host fsA1 installConfig =
          writeDocument host fsA1 (generateOmoConfig installConfig)"
      by (simp add: writeSettings_def existsSync_def fsA1_def Let_def)
    have same: "map_sum id (\<lambda>x. ()) (writeDocument host fsA1 doc) =
                map_sum id (\<lambda>x. ()) (writeDocument host fs1 doc)" for doc
      using file1 by (simp add: writeDocument_def writeFileSync_def fsA1_def split: option.splits)
    show ?thesis
      using dir dirA ws wsA same [of "generateOmoConfig installConfig"]
      unfolding fsA_def [symmetric]
      by (cases "writeDocument host fs1 (generateOmoConfig installConfig)";
          cases "writeDocument host fsA1 (generateOmoConfig installConfig)")
        (auto simp: writeOmoConfig_def)
  qed
qed

text \<open>
  Witness for C8: a settings file of three spaces and a line feed, and one holding the
  unparseable text \<open>{oops\<close>. Both runs succeed and leave the freshly generated document,
  as the run without a settings file does.
\<close>

theorem writeOmoConfig_starts_fresh_witness:
  "unusable sampleHost ''   \<newline>'' \<and>
   writeOmoConfig sampleHost (fsWith omoPath ''   \<newline>'') noProviderConfig =
     (succeeded omoPath,
      fsWith omoPath (printJson 0 (JObj (generateOmoConfig noProviderConfig)) @ ''\<newline>'')) \<and>
   unusable sampleHost ''{oops'' \<and>
   writeOmoConfig sampleHost (fsWith omoPath ''{oops'') noProviderConfig =
     (succeeded omoPath,
      fsWith omoPath (printJson 0 (JObj (generateOmoConfig noProviderConfig)) @ ''\<newline>'')) \<and>
   fst (writeOmoConfig sampleHost (Map.empty(cfgDir \<mapsto> Directory)) noProviderConfig) =
     succeeded omoPath"
proof -
  have d: "ensureConfigDir sampleHost (fsWith omoPath body) = Inr (fsWith omoPath body)" for body
    by (simp add: ensureConfigDir_def existsSync_def sample_defs)
  have e: "fsWith omoPath body (omoConfig sampleHost) = Some (File body)" for body
    by (simp add: sample_defs)
  have io: "fault sampleHost (Stat (omoConfig sampleHost)) = None"
    "fault sampleHost (Read (omoConfig sampleHost)) = None"
    "fault sampleHost (Write (omoConfig sampleHost)) = None"
    by (simp_all add: sampleHost_def)
  have b1: "unusable sampleHost ''   \<newline>''"
    by (simp add: unusable_def isEmptyOrWhitespace_def trim_def isWhitespace_def)
  have b2: "unusable sampleHost ''{oops''"
    by (simp add: unusable_def sample_defs customSettingsText_def commentedListText_def
        leadingCommentText_def)
  have p: "configDir sampleHost \<noteq> omoConfig sampleHost"
    by (simp add: sample_defs)
  have a: "(fsWith omoPath body)(omoPath := None) = Map.empty(cfgDir \<mapsto> Directory)"
    for body
    by (simp add: sample_defs)
  note t1 = writeOmoConfig_starts_fresh [OF d e io(1) io(2) b1 p, of noProviderConfig]
  note t2 = writeOmoConfig_starts_fresh [OF d e io(1) io(2) b2 p, of noProviderConfig]
  note o = sample_host_fields
  note ov = fsWith_overwrite
  note w = io(3) [unfolded o]
  note t1' = t1 [unfolded o a ov]
  note t2' = t2 [unfolded o a ov]
  have A1: "fst (writeOmoConfig sampleHost (fsWith omoPath ''   \<newline>'') noProviderConfig) =
      fst (writeOmoConfig sampleHost (Map.empty(cfgDir \<mapsto> Directory)) noProviderConfig)"
    by (rule t1' [THEN conjunct1])
  have A2: "writeOmoConfig sampleHost (fsWith omoPath ''   \<newline>'') noProviderConfig =
     (succeeded omoPath,
      fsWith omoPath (printJson 0 (JObj (generateOmoConfig noProviderConfig)) @ ''\<newline>''))"
    by (rule t1' [THEN conjunct2, THEN mp, OF w])
  have B2: "writeOmoConfig sampleHost (fsWith omoPath ''{oops'') noProviderConfig =
     (succeeded omoPath,
      fsWith omoPath (printJson 0 (JObj (generateOmoConfig noProviderConfig)) @ ''\<newline>''))"
    by (rule t2' [THEN conjunct2, THEN mp, OF w])
  have C: "fst (writeOmoConfig sampleHost (Map.empty(cfgDir \<mapsto> Directory)) noProviderConfig) =
     succeeded omoPath"
    using A1 unfolding A2 fst_conv by (rule sym)
  from b1 A2 b2 B2 C show ?thesis by (intro conjI)
qed

section \<open>Properties of the plugin registry editor\<close>

subsection \<open>The edit of the plugin list\<close>

text \<open>
  On a list of strings the edit finds the first entry that names the package. If that
  entry is the wanted one, nothing is written; otherwise it is overwritten in place, and
  if there is none the wanted entry is appended. Editing the edited list again changes
  nothing, and a list with at most one entry of the package has exactly one afterwards.
  In the plain format the file then holds the serialization of the configuration with the
  edited list.
\<close>

lemma pluginEntry_own: "isOwnPlugin (getPluginNameWithVersion host currentVersion)"
  by (simp add: getPluginNameWithVersion_def isOwnPlugin_def Let_def split: option.splits)

lemma findIndex_strings:
  "findIndex (map JStr ps) =
     Inr (if \<exists>p\<in>set ps. isOwnPlugin p then Some (firstOwn ps) else None)"
  by (induction ps) (auto simp: firstOwn_def)

lemma firstOwn_less: "\<exists>p\<in>set ps. isOwnPlugin p \<Longrightarrow> firstOwn ps < length ps"
  unfolding firstOwn_def
  by (induction ps) auto

lemma firstOwn_is_own: "\<exists>p\<in>set ps. isOwnPlugin p \<Longrightarrow> isOwnPlugin (ps ! firstOwn ps)"
  unfolding firstOwn_def
  by (induction ps) auto

lemma editPluginList_strings:
  "editPluginList (map JStr ps) e =
     Inr (if \<exists>p\<in>set ps. isOwnPlugin p
          then (if ps ! firstOwn ps = e then None else Some (map JStr (ps[firstOwn ps := e])))
          else Some (map JStr (ps @ [e])))"
  by (auto simp: editPluginList_def findIndex_strings firstOwn_less map_update)

lemma firstOwn_update:
  "isOwnPlugin e \<Longrightarrow> \<exists>p\<in>set ps. isOwnPlugin p \<Longrightarrow> firstOwn (ps[firstOwn ps := e]) = firstOwn ps"
  unfolding firstOwn_def by (induction ps) auto

lemma editPluginList_idempotent:
  assumes "isOwnPlugin e" and "editPluginList (map JStr ps) e = Inr (Some elems)"
  shows "editPluginList elems e = Inr None"
proof (cases "\<exists>p\<in>set ps. isOwnPlugin p")
  case True
  with assms(2) have el: "elems = map JStr (ps[firstOwn ps := e])"
    by (auto simp: editPluginList_strings split: if_splits)
  have "\<exists>p\<in>set (ps[firstOwn ps := e]). isOwnPlugin p"
    using assms(1) firstOwn_less [OF True] by (auto simp: set_update_memI intro!: bexI [of _ e])
  moreover have "ps[firstOwn ps := e] ! firstOwn (ps[firstOwn ps := e]) = e"
    using firstOwn_update [OF assms(1) True] firstOwn_less [OF True] by simp
  ultimately show ?thesis
    unfolding el editPluginList_strings by simp
next
  case False
  with assms(2) have el: "elems = map JStr (ps @ [e])"
    by (auto simp: editPluginList_strings split: if_splits)
  have f: "firstOwn (ps @ [e]) = length ps"
    using False assms(1) by (simp add: firstOwn_def takeWhile_append2)
  have "\<exists>p\<in>set (ps @ [e]). isOwnPlugin p" using assms(1) by auto
  then show ?thesis
    unfolding el editPluginList_strings by (simp add: f)
qed

lemma editPluginList_at_most_once:
  assumes "isOwnPlugin e" and "editPluginList (map JStr ps) e = Inr (Some elems)"
    and "length (filter isOwnPlugin ps) \<le> 1"
  shows "\<exists>ps'. elems = map JStr ps' \<and> length (filter isOwnPlugin ps') = 1"
proof (cases "\<exists>p\<in>set ps. isOwnPlugin p")
  case True
  with assms(2) have el: "elems = map JStr (ps[firstOwn ps := e])"
    by (auto simp: editPluginList_strings split: if_splits)
  have "length (filter isOwnPlugin (ps[i := e])) = length (filter isOwnPlugin ps)"
    if "i < length ps" "isOwnPlugin (ps ! i)" for i
    using that assms(1)
  proof (induction ps arbitrary: i)
    case Nil
    then show ?case by simp
  next
    case (Cons p ps)
    then show ?case by (cases i) auto
  qed
  from this [OF firstOwn_less [OF True] firstOwn_is_own [OF True]]
  have "length (filter isOwnPlugin (ps[firstOwn ps := e])) = length (filter isOwnPlugin ps)" .
  moreover have "length (filter isOwnPlugin ps) \<ge> 1"
    using True by (metis One_nat_def Suc_leI filter_empty_conv length_greater_0_conv)
  ultimately show ?thesis using assms(3) el by auto
next
  case False
  with assms(2) have el: "elems = map JStr (ps @ [e])"
    by (auto simp: editPluginList_strings split: if_splits)
  have "filter isOwnPlugin ps = []" using False by (simp add: filter_empty_conv)
  then have "length (filter isOwnPlugin (ps @ [e])) = 1" using assms(1) by simp
  then show ?thesis using el by blast
qed


lemma updatePluginList_json:
  assumes parse: "parseConfigWithError host fs path = \<lparr>config = Some (JObj cfg), parse_error = None\<rparr>"
    and list: "getProp cfg ''plugin'' = JArr (map JStr ps)"
    and w: "fault host (Write path) = None" "fs path = Some (File old)"
  shows "updatePluginList host fs Json path e =
     Inr (succeeded path,
          (if \<exists>p\<in>set ps. isOwnPlugin p
           then (if ps ! firstOwn ps = e then fs
                 else fs(path \<mapsto> File (stringify host
                        (JObj (setProp ''plugin'' (JArr (map JStr (ps[firstOwn ps := e]))) cfg)) @
                        ''\<newline>'')))
           else fs(path \<mapsto> File (stringify host
                        (JObj (setProp ''plugin'' (JArr (map JStr (ps @ [e]))) cfg)) @
                        ''\<newline>''))))"
  using assms
  by (simp add: updatePluginList_def editPluginList_strings writeFileSync_def Let_def)

subsection \<open>The insertion after the opening brace\<close>

text \<open>
  When the text starts with white space and the opening brace, the fallback of the
  commented format inserts the new list right after the brace and leaves the rest of the
  text as it is; when the first character that is not white space is something else, it
  returns the text unchanged.
\<close>

lemma expandReplacement_plain:
  "CHR ''$'' \<notin> set template \<Longrightarrow> expandReplacement before matched group1 after template = template"
  by (induction before matched group1 after template rule: expandReplacement.induct) auto

lemma expandReplacement_group:
  "CHR ''$'' \<notin> set template \<Longrightarrow>
   expandReplacement before matched group1 after (''$1'' @ template) = group1 @ template"
  by (simp add: expandReplacement_plain)

lemma replaceOpeningBrace_inserts:
  assumes "\<forall>c\<in>set ws. isWhitespace c" and "CHR ''$'' \<notin> set pluginEntry"
  shows \<open>replaceOpeningBrace (ws @ ''{'' @ rest) (''$1\<newline>  "plugin": ["'' @ pluginEntry @ ''"],'') =
           ws @ ''{'' @ ''\<newline>  "plugin": ["'' @ pluginEntry @ ''"],'' @ rest\<close>
proof -
  have b: "\<not> isWhitespace CHR ''{''" by (simp add: isWhitespace_def)
  have t: "takeWhile isWhitespace (ws @ ''{'' @ rest) = ws"
    using assms(1) b by (simp add: takeWhile_append2)
  have d: "dropWhile isWhitespace (ws @ ''{'' @ rest) = ''{'' @ rest"
    using assms(1) b by (simp add: dropWhile_append2)
  have n: \<open>CHR ''$'' \<notin> set (''\<newline>  "plugin": ["'' @ pluginEntry @ ''"],'')\<close>
    using assms(2) by simp
  show ?thesis
    unfolding replaceOpeningBrace_def t d Let_def
    using expandReplacement_group [OF n, of "[]" "ws @ ''{''" "ws @ ''{''" rest]
    by simp
qed

lemma replaceOpeningBrace_no_match:
  assumes "dropWhile isWhitespace content = c # rest" "c \<noteq> CHR ''{''"
  shows "replaceOpeningBrace content replacement = content"
  using assms by (simp add: replaceOpeningBrace_def)


subsection \<open>Runs on commented configurations\<close>

lemma plugin_entry: "getPluginNameWithVersion sampleHost ''3.0.0'' = ''oh-my-opencode@3.0.0''"
  by (simp add: getPluginNameWithVersion_def sampleHost_def PACKAGE_NAME_def)

lemma search_commented:
  \<open>searchPluginArray [] commentedListText =
     Some (''{\<newline>  // '', ''"plugin": ["oh-my-opencode@1.0.0"]'', ''"oh-my-opencode@1.0.0"'',
           '',\<newline>  "plugin": ["oh-my-opencode@2.0.0"]\<newline>}\<newline>'')\<close>
  by (simp add: commentedListText_def matchPluginArrayAt_def splitAtChar_def isWhitespace_def)

lemma search_leading: "searchPluginArray [] leadingCommentText = None"
  by (simp add: leadingCommentText_def matchPluginArrayAt_def splitAtChar_def isWhitespace_def)


lemma parse_commented:
  "parseConfigWithError sampleHost (fsWith jsoncPath commentedListText) jsoncPath =
     \<lparr>config = Some (JObj [(''plugin'', JArr [JStr ''oh-my-opencode@2.0.0''])]), parse_error = None\<rparr>"
  by (simp add: parseConfigWithError_def statSync_def readFileSync_def sample_defs
      commentedListText_def byteLength_def isEmptyOrWhitespace_def trim_def isWhitespace_def
      customSettingsText_def)

text \<open>
  Claim C7 at a failing input. The commented configuration lists \<open>oh-my-opencode@2.0.0\<close>
  and carries, one line above, a commented-out list with \<open>oh-my-opencode@1.0.0\<close>. Ensuring
  the plugin for the version 3.0.0 reports success, but the textual match finds the
  commented-out list first: the new entry is written into the comment line (its
  continuation lines fall outside the comment), and the real list still holds
  \<open>oh-my-opencode@2.0.0\<close>. The existing entry has not been replaced.
\<close>

theorem addPlugin_commented_list:
  "addPluginToOpenCodeConfig sampleHost (fsWith jsoncPath commentedListText) ''3.0.0'' =
     (succeeded jsoncPath, fsWith jsoncPath commentedListResult)"
proof -
  have d: "ensureConfigDir sampleHost (fsWith jsoncPath commentedListText) =
             Inr (fsWith jsoncPath commentedListText)"
    by (simp add: ensureConfigDir_def existsSync_def sample_defs)
  have f: "detectConfigFormat sampleHost (fsWith jsoncPath commentedListText) = (Jsonc, jsoncPath)"
    by (simp add: detectConfigFormat_def existsSync_def sample_defs)
  have r: "readFileSync sampleHost (fsWith jsoncPath commentedListText) jsoncPath =
             Inr commentedListText"
    by (simp add: readFileSync_def sample_defs)
  have w: "writeFileSync sampleHost (fsWith jsoncPath commentedListText) jsoncPath body =
             Inr (fsWith jsoncPath body)" for body
    by (simp add: writeFileSync_def sample_defs)
  have u: "updatePluginList sampleHost (fsWith jsoncPath commentedListText) Jsonc jsoncPath
             ''oh-my-opencode@3.0.0'' = Inr (succeeded jsoncPath, fsWith jsoncPath commentedListResult)"
    unfolding updatePluginList_def
    by (simp add: parse_commented getProp_def editPluginList_def isOwnPlugin_def PACKAGE_NAME_def r w
        search_commented replacePluginArray_def join_def commentedListResult_def setProp_def
        Let_def)
  show ?thesis
    by (simp add: addPluginToOpenCodeConfig_def d f plugin_entry u)
qed

text \<open>
  Claim C9 at a failing input. The commented configuration has no plugin list and starts
  with a comment line. The pattern for the opening brace is anchored at the start of the
  text and allows only white space before the brace, so nothing is replaced: the editor
  reports success, the file is unchanged, and the plugin is nowhere in it.
\<close>

theorem addPlugin_leading_comment:
  "addPluginToOpenCodeConfig sampleHost (fsWith jsoncPath leadingCommentText) ''3.0.0'' =
     (succeeded jsoncPath, fsWith jsoncPath leadingCommentText) \<and>
   \<not> includesStr leadingCommentText ''oh-my-opencode''"
proof
  have d: "ensureConfigDir sampleHost (fsWith jsoncPath leadingCommentText) =
             Inr (fsWith jsoncPath leadingCommentText)"
    by (simp add: ensureConfigDir_def existsSync_def sample_defs)
  have f: "detectConfigFormat sampleHost (fsWith jsoncPath leadingCommentText) = (Jsonc, jsoncPath)"
    by (simp add: detectConfigFormat_def existsSync_def sample_defs)
  have r: "readFileSync sampleHost (fsWith jsoncPath leadingCommentText) jsoncPath =
             Inr leadingCommentText"
    by (simp add: readFileSync_def sample_defs)
  have w: "writeFileSync sampleHost (fsWith jsoncPath leadingCommentText) jsoncPath body =
             Inr (fsWith jsoncPath body)" for body
    by (simp add: writeFileSync_def sample_defs)
  have p: "parseConfigWithError sampleHost (fsWith jsoncPath leadingCommentText) jsoncPath =
     \<lparr>config = Some (JObj [(''theme'', JStr ''dark'')]), parse_error = None\<rparr>"
    by (simp add: parseConfigWithError_def statSync_def readFileSync_def sample_defs
      leadingCommentText_def commentedListText_def byteLength_def isEmptyOrWhitespace_def
      trim_def isWhitespace_def customSettingsText_def)
  have b: "replaceOpeningBrace leadingCommentText replacement = leadingCommentText" for replacement
    by (simp add: replaceOpeningBrace_def leadingCommentText_def isWhitespace_def)
  have u: "updatePluginList sampleHost (fsWith jsoncPath leadingCommentText) Jsonc jsoncPath
             ''oh-my-opencode@3.0.0'' = Inr (succeeded jsoncPath, fsWith jsoncPath leadingCommentText)"
    unfolding updatePluginList_def
    by (simp add: p getProp_def editPluginList_def r w search_leading b Let_def)
  show "addPluginToOpenCodeConfig sampleHost (fsWith jsoncPath leadingCommentText) ''3.0.0'' =
     (succeeded jsoncPath, fsWith jsoncPath leadingCommentText)"
    by (simp add: addPluginToOpenCodeConfig_def d f plugin_entry u)
  show "\<not> includesStr leadingCommentText ''oh-my-opencode''"
    by (simp add: leadingCommentText_def)
qed

end
